theory Spec2Isabelle
  imports Complex_Main "HOL-Library.AList"
begin

section \<open>JavaScript values\<close>

text \<open>
  The service (class \<open>ShoppingService\<close>) handles rows as open-ended objects whose
  property values are whatever the file parser or the JSON body delivered. The values are
  modelled by a datatype with one constructor per run-time shape the code distinguishes
  with \<open>typeof\<close> and \<open>instanceof Date\<close>.

  A number is an IEEE double: here \<open>NaN\<close>, the two infinities, or a finite value kept
  as an exact rational (negative zero is identified with zero; the code never tells them
  apart). A \<open>Date\<close> carries its time value in milliseconds, \<open>None\<close> for an invalid date.
  A string is a list of code units below 256 (the Latin-1 range).
\<close>

datatype numero = NaN | Infinito bool | Fin rat

datatype jsval =
    JUndefined
  | JNull
  | JBool bool
  | JNum numero
  | JStr string
  | JDate "int option"
  | JObj "(string \<times> jsval) list"
  | JArr "jsval list"
  | JFun string

text \<open>
  An object used as a row is a plain object, made by an object literal or by a parser:
  the list of its own enumerable properties in the order of \<open>Object.entries\<close>, with
  \<open>Object.prototype\<close> as its prototype. \<open>JFun n\<close> is the built-in function named \<open>n\<close>.
  Where a record is built, its keys stand in the order of their first assignment; that
  JavaScript lists integer-like keys first is left out, and nothing below depends on the
  order of the keys within a record.
\<close>

type_synonym registro = "(string \<times> jsval) list"

text \<open>
  The members every plain object inherits from \<open>Object.prototype\<close>: eleven functions
  (\<open>constructor\<close> is the function \<open>Object\<close>) and the accessor \<open>__proto__\<close>, which
  reads as \<open>Object.prototype\<close> itself, an object without enumerable properties.
\<close>

definition object_prototype_keys :: "string list" where
  "object_prototype_keys =
     [''constructor'', ''__proto__'', ''hasOwnProperty'', ''isPrototypeOf'',
      ''propertyIsEnumerable'', ''toLocaleString'', ''toString'', ''valueOf'',
      ''__defineGetter__'', ''__defineSetter__'', ''__lookupGetter__'', ''__lookupSetter__'']"

definition Object_prototype :: "string \<Rightarrow> jsval option" where
  "Object_prototype k =
     (if k = ''__proto__'' then Some (JObj [])
      else if k = ''constructor'' then Some (JFun ''Object'')
      else if k \<in> set object_prototype_keys then Some (JFun k)
      else None)"

text \<open>
  The string an inherited member turns into when it is used as a property name (Node.js
  prints a built-in function as \<open>function n() { [native code] }\<close>).
\<close>

definition String_miembro :: "jsval \<Rightarrow> string" where
  "String_miembro m =
     (case m of
        JFun n \<Rightarrow> ''function '' @ n @ ''() { [native code] }''
      | _ \<Rightarrow> ''[object Object]'')"

text \<open>
  \<open>r[k]\<close>: the own property, else the inherited member, else \<open>undefined\<close>.
\<close>

definition obtener :: "registro \<Rightarrow> string \<Rightarrow> jsval" where
  "obtener r k =
     (case map_of r k of
        Some v \<Rightarrow> v
      | None \<Rightarrow> (case Object_prototype k of Some m \<Rightarrow> m | None \<Rightarrow> JUndefined))"

text \<open>
  \<open>r[k] = v\<close> on an object that began as \<open>{}\<close>: the property is updated in place or
  added at the end. The name \<open>__proto__\<close> reaches the inherited setter and defines no
  property (given an object or \<open>null\<close> the setter replaces the prototype; the own
  properties, which are what a record lists, are the same).
\<close>

definition asignar :: "string \<Rightarrow> jsval \<Rightarrow> registro \<Rightarrow> registro" where
  "asignar k v r = (if k = ''__proto__'' then r else AList.update k v r)"

definition Object_keys :: "registro \<Rightarrow> string list" where
  "Object_keys r = map fst r"

fun typeof :: "jsval \<Rightarrow> string" where
  "typeof JUndefined = ''undefined''"
| "typeof JNull = ''object''"
| "typeof (JBool b) = ''boolean''"
| "typeof (JNum n) = ''number''"
| "typeof (JStr s) = ''string''"
| "typeof (JDate d) = ''object''"
| "typeof (JObj ps) = ''object''"
| "typeof (JArr vs) = ''object''"
| "typeof (JFun n) = ''function''"

fun instanceof_Date :: "jsval \<Rightarrow> bool" where
  "instanceof_Date (JDate d) = True"
| "instanceof_Date v = False"

subsection \<open>Numbers\<close>

fun Math_floor :: "numero \<Rightarrow> numero" where
  "Math_floor (Fin q) = Fin (of_int \<lfloor>q\<rfloor>)"
| "Math_floor n = n"

fun Math_ceil :: "numero \<Rightarrow> numero" where
  "Math_ceil (Fin q) = Fin (of_int \<lceil>q\<rceil>)"
| "Math_ceil n = n"

text \<open>\<open>Math.round\<close> rounds half-way cases towards positive infinity.\<close>

fun Math_round :: "numero \<Rightarrow> numero" where
  "Math_round (Fin q) = Fin (of_int \<lfloor>q + 1 / 2\<rfloor>)"
| "Math_round n = n"

text \<open>Strict inequality \<open>a !== b\<close> of two numbers: \<open>NaN\<close> differs from everything.\<close>

definition distinto :: "numero \<Rightarrow> numero \<Rightarrow> bool" where
  "distinto a b = (a = NaN \<or> b = NaN \<or> a \<noteq> b)"

text \<open>\<open>typeof v === 'number' && Math.floor(v) !== v\<close>.\<close>

fun es_numero_con_decimales :: "jsval \<Rightarrow> bool" where
  "es_numero_con_decimales (JNum n) = distinto (Math_floor n) n"
| "es_numero_con_decimales v = False"

text \<open>
  Division of two finite numbers, as in \<open>totalRegistros / limit\<close>. The quotient is kept
  exact; for a non-negative integer dividend below \<open>2^53\<close> and an integer divisor the
  rounding of the double quotient does not change its ceiling.
\<close>

definition dividir :: "rat \<Rightarrow> rat \<Rightarrow> numero" where
  "dividir a b =
     (if b = 0 then (if a = 0 then NaN else Infinito (0 < a)) else Fin (a / b))"

subsection \<open>Strings\<close>

text \<open>Character classes of the regular expressions, by code unit.\<close>

definition es_digito :: "char \<Rightarrow> bool" where
  "es_digito c = (48 \<le> (of_char c :: nat) \<and> (of_char c :: nat) \<le> 57)"

definition es_minuscula :: "char \<Rightarrow> bool" where
  "es_minuscula c = (97 \<le> (of_char c :: nat) \<and> (of_char c :: nat) \<le> 122)"

definition es_mayuscula :: "char \<Rightarrow> bool" where
  "es_mayuscula c = (65 \<le> (of_char c :: nat) \<and> (of_char c :: nat) \<le> 90)"

text \<open>\<open>[a-zA-Z]\<close>\<close>

definition es_letra :: "char \<Rightarrow> bool" where
  "es_letra c = (es_minuscula c \<or> es_mayuscula c)"

text \<open>\<open>[a-zA-Z0-9_]\<close>\<close>

definition es_alfanumerico :: "char \<Rightarrow> bool" where
  "es_alfanumerico c = (es_letra c \<or> es_digito c \<or> c = CHR ''_'')"

text \<open>
  \<open>\s\<close> below 256: tab, line feed, vertical tab, form feed, carriage return, space and
  the no-break space.
\<close>

definition es_espacio :: "char \<Rightarrow> bool" where
  "es_espacio c = ((of_char c :: nat) \<in> {9, 10, 11, 12, 13, 32, 160})"

text \<open>
  \<open>String.prototype.toLowerCase\<close> below 256: \<open>A-Z\<close> and the upper-case letters
  \<open>0xC0-0xDE\<close> (the multiplication sign \<open>0xD7\<close> apart) move up by 32.
\<close>

definition minuscula :: "char \<Rightarrow> char" where
  "minuscula c =
     (let n = (of_char c :: nat) in
      if (65 \<le> n \<and> n \<le> 90) \<or> (192 \<le> n \<and> n \<le> 222 \<and> n \<noteq> 215)
      then char_of (n + 32) else c)"

definition toLowerCase :: "string \<Rightarrow> string" where
  "toLowerCase s = map minuscula s"

section \<open>Exceptions\<close>

text \<open>
  The exception classes the service throws, each with the place that threw it in lieu of
  the message text; \<open>Error\<close> is an error raised by the database driver.
\<close>

datatype mensaje =
    NombreInvalido
  | PalabraReservada string
  | NingunRegistroInsertado
  | TablaNoExiste string
  | RegistroNoEncontrado
  | SinCamposValidos
  | NoActualizado
  | ErrorObtenerDatos
  | ErrorInesperado

datatype excepcion =
    BadRequestException mensaje
  | NotFoundException mensaje
  | InternalServerErrorException mensaje
  | Error string

fun handleExceptions :: "excepcion \<Rightarrow> excepcion" where
  "handleExceptions (BadRequestException m) = BadRequestException m"
| "handleExceptions (NotFoundException m) = NotFoundException m"
| "handleExceptions e = InternalServerErrorException ErrorInesperado"

section \<open>Table names\<close>

text \<open>\<open>/^[a-z][a-z0-9_]*$/\<close>\<close>

fun validRegex :: "string \<Rightarrow> bool" where
  "validRegex [] = False"
| "validRegex (c # cs) =
     (es_minuscula c \<and> list_all (\<lambda>d. es_minuscula d \<or> es_digito d \<or> d = CHR ''_'') cs)"

definition palabrasReservadas :: "string list" where
  "palabrasReservadas =
     [''select'', ''from'', ''where'', ''insert'', ''update'', ''delete'', ''drop'',
      ''create'', ''table'', ''index'', ''view'', ''sequence'', ''trigger'', ''user'',
      ''group'', ''order'', ''by'', ''having'', ''limit'', ''offset'', ''join'']"

definition validarNombreTabla :: "string \<Rightarrow> excepcion + unit" where
  "validarNombreTabla nombreTabla =
     (if \<not> validRegex nombreTabla then Inl (BadRequestException NombreInvalido)
      else if toLowerCase nombreTabla \<in> set palabrasReservadas
      then Inl (BadRequestException (PalabraReservada nombreTabla))
      else Inr ())"

text \<open>
  \<open>create\<close> validates the name first; whatever is thrown inside its \<open>try\<close> goes through
  \<open>handleExceptions\<close>. The steps after the validation (duplicate check, file analysis,
  table creation, load) are the parameter \<open>resto\<close>, the outcome they would have.
\<close>

definition create :: "string \<Rightarrow> (excepcion + 'a) \<Rightarrow> excepcion + 'a" where
  "create nombreTabla resto =
     (case validarNombreTabla nombreTabla of
        Inl e \<Rightarrow> Inl (handleExceptions e)
      | Inr u \<Rightarrow> (case resto of Inl e \<Rightarrow> Inl (handleExceptions e) | Inr r \<Rightarrow> Inr r))"

section \<open>Column-name normalisation\<close>

text \<open>\<open>/[^a-zA-Z0-9_]/.test(col)\<close>\<close>

definition necesita_normalizar :: "string \<Rightarrow> bool" where
  "necesita_normalizar col = list_ex (\<lambda>c. \<not> es_alfanumerico c) col"

text \<open>\<open>columna.replace(/[^a-zA-Z0-9_]/g, '_').toLowerCase()\<close>\<close>

definition nombreNormalizado :: "string \<Rightarrow> string" where
  "nombreNormalizado columna =
     toLowerCase (map (\<lambda>c. if es_alfanumerico c then c else CHR ''_'') columna)"

text \<open>
  \<open>mapaNombres\<close> is a plain object that holds strings. \<open>mapaNombres[columna] = n\<close>
  defines a property, except under the name \<open>__proto__\<close>, where the inherited setter
  ignores a string.
\<close>

definition mapaNombres_de :: "string list \<Rightarrow> (string \<times> string) list" where
  "mapaNombres_de columnas =
     fold (\<lambda>columna m.
             if columna = ''__proto__'' then m
             else AList.update columna (nombreNormalizado columna) m)
          columnas []"

text \<open>
  \<open>mapaNombres[nombreOriginal] || nombreOriginal\<close>, as the property name it is then used
  for: the empty string is falsy; a name the map does not hold reads the member inherited
  from \<open>Object.prototype\<close>, which is truthy, or else \<open>undefined\<close>, and then the name is
  kept.
\<close>

definition buscar_nombre :: "(string \<times> string) list \<Rightarrow> string \<Rightarrow> string" where
  "buscar_nombre mapaNombres nombreOriginal =
     (case map_of mapaNombres nombreOriginal of
        Some n \<Rightarrow> (if n = [] then nombreOriginal else n)
      | None \<Rightarrow>
          (case Object_prototype nombreOriginal of
             Some m \<Rightarrow> String_miembro m
           | None \<Rightarrow> nombreOriginal))"

definition renombrar :: "(string \<times> string) list \<Rightarrow> registro \<Rightarrow> registro" where
  "renombrar mapaNombres registro =
     fold (\<lambda>(nombreOriginal, valor) nuevoRegistro.
             asignar (buscar_nombre mapaNombres nombreOriginal) valor nuevoRegistro)
          registro []"

fun normalizarNombresColumnas :: "registro list \<Rightarrow> registro list" where
  "normalizarNombresColumnas [] = []"
| "normalizarNombresColumnas (primerRegistro # resto) =
     (let columnas = Object_keys primerRegistro in
      if \<not> list_ex necesita_normalizar columnas then primerRegistro # resto
      else
        (let mapaNombres = mapaNombres_de columnas
         in map (renombrar mapaNombres) (primerRegistro # resto)))"

text \<open>
  The name a key ends up with, in words: a key of the first record is replaced by its
  normalised form, any other key is kept.
\<close>

definition nombre_final :: "string list \<Rightarrow> string \<Rightarrow> string" where
  "nombre_final columnas k = (if k \<in> set columnas then nombreNormalizado k else k)"

text \<open>
  An ordinary key is not the name of a member of \<open>Object.prototype\<close> and does not
  normalise to \<open>__proto__\<close>; a record lists each of its keys once.
\<close>

definition clave_ordinaria :: "string \<Rightarrow> bool" where
  "clave_ordinaria k =
     (k \<notin> set object_prototype_keys \<and> nombreNormalizado k \<noteq> ''__proto__'')"

definition registro_ok :: "registro \<Rightarrow> bool" where
  "registro_ok r = (distinct (map fst r) \<and> list_all clave_ordinaria (map fst r))"

section \<open>Type inference\<close>

record ColumnaDefinicion =
  nombre :: string
  tipo :: string
  esNullable :: bool

text \<open>\<open>/[a-zA-Z]/.test(valor) || /[^0-9\.,\-\s]/.test(valor)\<close>\<close>

definition contiene_no_numerico :: "string \<Rightarrow> bool" where
  "contiene_no_numerico valor =
     (list_ex es_letra valor
      \<or> list_ex (\<lambda>c. \<not> (es_digito c \<or> c = CHR ''.'' \<or> c = CHR '','' \<or> c = CHR ''-''
                        \<or> es_espacio c)) valor)"

fun hayValorNoNumerico :: "jsval \<Rightarrow> bool" where
  "hayValorNoNumerico (JStr valor) = contiene_no_numerico valor"
| "hayValorNoNumerico v = False"

text \<open>\<open>v.replace(/[^\d.-]/g, '')\<close>\<close>

definition limpiar_numero :: "string \<Rightarrow> string" where
  "limpiar_numero v = filter (\<lambda>c. es_digito c \<or> c = CHR ''.'' \<or> c = CHR ''-'') v"

text \<open>
  \<open>!isNaN(Number(cleaned))\<close> for a string of digits, points and minus signs: the empty
  string converts to zero; otherwise the whole string must be an optional minus sign
  followed by digits with an optional point and fraction, or by a point and digits.
\<close>

definition Number_no_NaN :: "string \<Rightarrow> bool" where
  "Number_no_NaN cleaned =
     (cleaned = [] \<or>
      (let t = (case cleaned of [] \<Rightarrow> [] | c # r \<Rightarrow> if c = CHR ''-'' then r else c # r);
           a = takeWhile es_digito t;
           r = dropWhile es_digito t
       in case r of
            [] \<Rightarrow> a \<noteq> []
          | c # b \<Rightarrow> c = CHR ''.'' \<and> list_all es_digito b \<and> (a \<noteq> [] \<or> b \<noteq> [])))"

fun potentialNumber :: "jsval \<Rightarrow> string option" where
  "potentialNumber (JStr v) =
     (let cleaned = limpiar_numero v in if Number_no_NaN cleaned then Some cleaned else None)"
| "potentialNumber v = None"

text \<open>
  The body of the loop over the columns (lines 280 to 365 of the service), on the values
  of one column that are neither \<open>null\<close> nor \<open>undefined\<close>.
\<close>

definition inferir_tipo :: "jsval list \<Rightarrow> string" where
  "inferir_tipo valoresNoNulos =
     (case valoresNoNulos of
        [] \<Rightarrow> ''text''
      | primero # _ \<Rightarrow>
          if typeof primero = ''number'' then
            (let hasDecimals = list_ex es_numero_con_decimales valoresNoNulos;
                 todosSonNumeros = list_all (\<lambda>v. typeof v = ''number'') valoresNoNulos
             in if \<not> todosSonNumeros then ''text''
                else if hasDecimals then ''decimal'' else ''int'')
          else if instanceof_Date primero then
            (if list_all instanceof_Date valoresNoNulos then ''date'' else ''text'')
          else if typeof primero = ''boolean'' then
            (if list_all (\<lambda>v. typeof v = ''boolean'') valoresNoNulos
             then ''boolean'' else ''text'')
          else if typeof primero = ''string'' then
            (if list_ex hayValorNoNumerico valoresNoNulos then ''text''
             else
               (let potentialNumbers = List.map_filter potentialNumber valoresNoNulos in
                if length potentialNumbers = length valoresNoNulos
                then (if list_ex (\<lambda>v. CHR ''.'' \<in> set v) potentialNumbers
                      then ''decimal'' else ''int'')
                else ''text''))
          else ''text'')"

text \<open>A \<open>Set\<close> keeps its members in the order of their first insertion.\<close>

definition Set_add :: "string \<Rightarrow> string list \<Rightarrow> string list" where
  "Set_add k ks = (if k \<in> set ks then ks else ks @ [k])"

definition todasLasColumnas :: "registro list \<Rightarrow> string list" where
  "todasLasColumnas datos = fold (\<lambda>registro ks. fold Set_add (Object_keys registro) ks) datos []"

definition valoresNoNulos :: "registro list \<Rightarrow> string \<Rightarrow> jsval list" where
  "valoresNoNulos datos columna =
     filter (\<lambda>valor. valor \<noteq> JNull \<and> valor \<noteq> JUndefined)
            (map (\<lambda>registro. obtener registro columna) datos)"

definition analizarEstructuraColumnas :: "registro list \<Rightarrow> ColumnaDefinicion list" where
  "analizarEstructuraColumnas datos =
     (if datos = [] then []
      else map (\<lambda>columna. \<lparr>nombre = columna,
                           tipo = inferir_tipo (valoresNoNulos datos columna),
                           esNullable = True\<rparr>)
               (todasLasColumnas datos))"

text \<open>
  The classification of a text column in the words of the specification, to compare the
  code with: the test for a letter or a character outside \<open>[0-9.,\-\s]\<close> by the
  characters themselves, the stripping of everything but digits, points and minus signs,
  and what \<open>Number\<close> makes a number of such a string (empty, or an optional minus sign
  before digits, digits with a point and an optional fraction, or a point and a fraction).
\<close>

definition tiene_no_numerico_spec :: "string \<Rightarrow> bool" where
  "tiene_no_numerico_spec s =
     (\<exists>x \<in> set s.
        x \<in> set (''abcdefghijklmnopqrstuvwxyz'' @ ''ABCDEFGHIJKLMNOPQRSTUVWXYZ'')
        \<or> x \<notin> set ''0123456789.,-''
             \<union> set [CHR 0x09, CHR 0x0A, CHR 0x0B, CHR 0x0C, CHR 0x0D, CHR 0x20, CHR 0xA0])"

definition sin_separadores_spec :: "string \<Rightarrow> string" where
  "sin_separadores_spec s = filter (\<lambda>x. x \<in> set ''0123456789.-'') s"

definition numero_spec :: "string \<Rightarrow> bool" where
  "numero_spec t =
     (t = [] \<or>
      (\<exists>signo entera fraccion.
         (signo = [] \<or> signo = ''-'')
         \<and> set entera \<subseteq> set ''0123456789'' \<and> set fraccion \<subseteq> set ''0123456789''
         \<and> (t = signo @ entera \<and> entera \<noteq> []
            \<or> t = signo @ entera @ ''.'' @ fraccion \<and> (entera \<noteq> [] \<or> fraccion \<noteq> []))))"

section \<open>Value sanitisation\<close>

text \<open>
  What the service takes from the JavaScript runtime: \<open>parseFloat\<close>, the time value of
  \<open>new Date(s)\<close> and of \<open>Date.parse(s)\<close> (\<open>None\<close> when it is \<open>NaN\<close>),
  \<open>JSON.stringify\<close> (\<open>None\<close> when it throws), \<open>String\<close> on a value that is not a
  string, and the calendar date \<open>toISOString().split('T')[0]\<close> of a time value.
\<close>

record entorno =
  parseFloat :: "string \<Rightarrow> numero"
  Date_de :: "string \<Rightarrow> int option"
  JSON_stringify :: "jsval \<Rightarrow> string option"
  String_de :: "jsval \<Rightarrow> string"
  fecha_iso :: "int \<Rightarrow> string"

definition verdaderos :: "string list" where
  "verdaderos = [''true'', ''yes'', ''si'', ''s'', ''y'', ''1'']"

definition falsos :: "string list" where
  "falsos = [''false'', ''no'', ''n'', ''0'']"

definition sanitizar_date :: "entorno \<Rightarrow> jsval \<Rightarrow> jsval" where
  "sanitizar_date en valor =
     (case valor of
        JStr s \<Rightarrow> (case Date_de en s of Some t \<Rightarrow> JDate (Some t) | None \<Rightarrow> JNull)
      | JDate d \<Rightarrow> JDate d
      | _ \<Rightarrow> JNull)"

definition sanitizar_int :: "entorno \<Rightarrow> jsval \<Rightarrow> jsval" where
  "sanitizar_int en valor =
     (case valor of
        JStr s \<Rightarrow>
          (let numStr = limpiar_numero s; num = parseFloat en numStr
           in if num = NaN then JNull else JNum (Math_round num))
      | JNum n \<Rightarrow> JNum (Math_round n)
      | _ \<Rightarrow> JNull)"

definition sanitizar_decimal :: "entorno \<Rightarrow> jsval \<Rightarrow> jsval" where
  "sanitizar_decimal en valor =
     (case valor of
        JStr s \<Rightarrow>
          (let numStr = map (\<lambda>c. if c = CHR '','' then CHR ''.'' else c) s;
               cleanStr = limpiar_numero numStr;
               num = parseFloat en cleanStr
           in if num = NaN then JNull else JNum num)
      | JNum n \<Rightarrow> JNum n
      | _ \<Rightarrow> JNull)"

definition sanitizar_boolean :: "jsval \<Rightarrow> jsval" where
  "sanitizar_boolean valor =
     (case valor of
        JStr s \<Rightarrow>
          (let lowerVal = toLowerCase s
           in if lowerVal \<in> set verdaderos then JBool True
              else if lowerVal \<in> set falsos then JBool False
              else JNull)
      | JNum n \<Rightarrow> JBool (distinto n (Fin 0))
      | JBool b \<Rightarrow> JBool b
      | _ \<Rightarrow> JNull)"

definition sanitizar_default :: "entorno \<Rightarrow> jsval \<Rightarrow> jsval" where
  "sanitizar_default en valor =
     (case valor of
        JStr s \<Rightarrow> JStr s
      | _ \<Rightarrow>
          if typeof valor = ''object''
          then (case JSON_stringify en valor of
                  Some s \<Rightarrow> JStr s
                | None \<Rightarrow> JStr (String_de en valor))
          else JStr (String_de en valor))"

text \<open>The \<open>switch\<close> on the type tag; each \<open>case\<close> is one of the functions above.\<close>

definition sanitizarValorSegunTipo :: "entorno \<Rightarrow> jsval \<Rightarrow> string \<Rightarrow> jsval" where
  "sanitizarValorSegunTipo en valor tipo' =
     (if valor = JNull \<or> valor = JUndefined then JNull
      else if tipo' = ''date'' \<or> tipo' = ''timestamp'' then sanitizar_date en valor
      else if tipo' = ''int'' then sanitizar_int en valor
      else if tipo' = ''decimal'' then sanitizar_decimal en valor
      else if tipo' = ''boolean'' then sanitizar_boolean valor
      else sanitizar_default en valor)"

text \<open>
  A fragment of a runtime for the examples. It agrees with a real one where the examples
  use it: \<open>parseFloat\<close> on a string of digits, points and minus signs (without the
  rounding to a double), the calendar date \<open>1970-01-02\<close>, and \<open>String\<close> on the truth
  values; elsewhere it is arbitrary.
\<close>

definition valor_digitos :: "string \<Rightarrow> nat" where
  "valor_digitos ds = foldl (\<lambda>n c. 10 * n + ((of_char c :: nat) - 48)) 0 ds"

definition parseFloat_exacto :: "string \<Rightarrow> numero" where
  "parseFloat_exacto s =
     (let neg = (case s of [] \<Rightarrow> False | c # r \<Rightarrow> c = CHR ''-'');
          t = (if neg then tl s else s);
          a = takeWhile es_digito t;
          r = dropWhile es_digito t;
          b = (case r of [] \<Rightarrow> [] | c # f \<Rightarrow> if c = CHR ''.'' then takeWhile es_digito f else []);
          q = (of_nat (valor_digitos a) + of_nat (valor_digitos b) / 10 ^ length b :: rat)
      in if a = [] \<and> b = [] then NaN else Fin (if neg then - q else q))"

definition entorno_ejemplo :: entorno where
  "entorno_ejemplo =
     \<lparr>parseFloat = parseFloat_exacto,
      Date_de = (\<lambda>s. if s = ''1970-01-02'' then Some 86400000 else None),
      JSON_stringify = (\<lambda>v. None),
      String_de = (\<lambda>v. if v = JBool True then ''true'' else ''false''),
      fecha_iso = (\<lambda>t. if t = 86400000 then ''1970-01-02'' else ''1970-01-01'')\<rparr>"

section \<open>The database driver\<close>

text \<open>
  A statement sent with \<open>queryRunner.query\<close>, by what its text says:
  \<open>INSERT INTO "t" ("c1", ...) VALUES ($1, ...)\<close> with the bound values, the same with
  \<open>RETURNING id\<close>, and \<open>UPDATE "t" SET "c1" = $1, ... WHERE id = $n\<close> with the bound
  values and the row id.
\<close>

datatype consulta =
    InsertInto string "string list" "jsval list"
  | InsertReturning string "string list" "jsval list"
  | UpdateSet string "string list" "jsval list" int

text \<open>
  The query runner over a database state \<open>'s\<close>: every operation gives the message
  of the error it raises, if any, and the state it leaves. Connecting to the database and
  releasing the connection are taken to succeed.
\<close>

record 's QueryRunner =
  startTransaction :: "'s \<Rightarrow> string option \<times> 's"
  query :: "consulta \<Rightarrow> 's \<Rightarrow> string option \<times> 's"
  commitTransaction :: "'s \<Rightarrow> string option \<times> 's"
  rollbackTransaction :: "'s \<Rightarrow> string option \<times> 's"

text \<open>The lines the loader writes to its log, with the numbers they report.\<close>

datatype evento =
    LoteProcesado nat nat
  | TransaccionCompletada nat nat
  | LotePerdido nat
  | InsercionParcial nat nat

section \<open>Batch load\<close>

text \<open>
  \<open>new Map(columnas.map((col) => [col.nombre, col]))\<close>: of two columns of one name the
  later one stays.
\<close>

definition columnasMap_get :: "ColumnaDefinicion list \<Rightarrow> string \<Rightarrow> ColumnaDefinicion option" where
  "columnasMap_get columnas k = find (\<lambda>col. nombre col = k) (rev columnas)"

text \<open>
  The columns and values of one record that go into its \<open>INSERT\<close>: the keys whose value
  is neither \<open>undefined\<close> nor \<open>null\<close> and that name a column, each with its value
  sanitised for the type of the column.
\<close>

definition filtrar_registro ::
  "entorno \<Rightarrow> ColumnaDefinicion list \<Rightarrow> registro \<Rightarrow> string list \<times> jsval list" where
  "filtrar_registro en columnas registro =
     fold (\<lambda>nombreColumna (columnasFiltradas, valores).
             let valor = obtener registro nombreColumna in
             if valor \<noteq> JUndefined \<and> valor \<noteq> JNull then
               (case columnasMap_get columnas nombreColumna of
                  Some columnaInfo \<Rightarrow>
                    (columnasFiltradas @ [nombreColumna],
                     valores @ [sanitizarValorSegunTipo en valor (tipo columnaInfo)])
                | None \<Rightarrow> (columnasFiltradas, valores))
             else (columnasFiltradas, valores))
          (Object_keys registro) ([], [])"

text \<open>
  The loop of \<open>insertarLote\<close> over the records of a batch, with the state of the
  database and the counters \<open>recordsProcessed\<close> and \<open>recordsFailed\<close>. A record without
  a valid column is skipped; an error of the \<open>INSERT\<close> is caught and counted.
\<close>

fun insertarLote_registros ::
  "entorno \<Rightarrow> 's QueryRunner \<Rightarrow> string \<Rightarrow> ColumnaDefinicion list \<Rightarrow> registro list
     \<Rightarrow> 's \<times> nat \<times> nat \<Rightarrow> 's \<times> nat \<times> nat" where
  "insertarLote_registros en qr nombreTabla columnas [] acc = acc"
| "insertarLote_registros en qr nombreTabla columnas (registro # lote)
       (s, recordsProcessed, recordsFailed) =
     (case filtrar_registro en columnas registro of
        (columnasFiltradas, valores) \<Rightarrow>
          if columnasFiltradas = []
          then insertarLote_registros en qr nombreTabla columnas lote
                 (s, recordsProcessed, recordsFailed)
          else
            (case query qr (InsertInto nombreTabla columnasFiltradas valores) s of
               (None, s') \<Rightarrow>
                 insertarLote_registros en qr nombreTabla columnas lote
                   (s', recordsProcessed + 1, recordsFailed)
             | (Some e, s') \<Rightarrow>
                 insertarLote_registros en qr nombreTabla columnas lote
                   (s', recordsProcessed, recordsFailed + 1)))"

text \<open>
  \<open>insertarLote\<close> gives the state it leaves and the line it logs. Every error of a
  record is caught inside the loop, so the function returns normally.
\<close>

definition insertarLote ::
  "entorno \<Rightarrow> 's QueryRunner \<Rightarrow> string \<Rightarrow> ColumnaDefinicion list \<Rightarrow> registro list
     \<Rightarrow> 's \<Rightarrow> 's \<times> evento list" where
  "insertarLote en qr nombreTabla columnas lote s =
     (if lote = [] then (s, [])
      else
        (case insertarLote_registros en qr nombreTabla columnas lote (s, 0, 0) of
           (s', recordsProcessed, recordsFailed) \<Rightarrow>
             (s', [LoteProcesado recordsProcessed recordsFailed])))"

text \<open>What a run of the loader leaves: the database, the counter, the log, the exception.\<close>

record 's carga =
  estado :: 's
  totalRecords :: nat
  bitacora :: "evento list"
  lanzada :: "excepcion option"

definition tamanoLote :: nat where
  "tamanoLote = 100"

text \<open>
  The loop over the batches; \<open>pendientes\<close> is \<open>datos.slice(i)\<close>. An error of
  \<open>startTransaction\<close>, or of \<open>rollbackTransaction\<close> inside the \<open>catch\<close>, leaves the
  function; an error of \<open>commitTransaction\<close> is caught, the batch rolled back and the
  loop goes on.
\<close>

function insertar_lotes ::
  "entorno \<Rightarrow> 's QueryRunner \<Rightarrow> string \<Rightarrow> ColumnaDefinicion list \<Rightarrow> registro list
     \<Rightarrow> 's carga \<Rightarrow> 's carga" where
  "insertar_lotes en qr nombreTabla columnas pendientes c =
     (if pendientes = [] then c
      else
        (let lote = take tamanoLote pendientes in
         case startTransaction qr (estado c) of
           (Some e, s1) \<Rightarrow> c\<lparr>estado := s1, lanzada := Some (Error e)\<rparr>
         | (None, s1) \<Rightarrow>
             (case insertarLote en qr nombreTabla columnas lote s1 of
                (s2, linea) \<Rightarrow>
                  (case commitTransaction qr s2 of
                     (None, s3) \<Rightarrow>
                       insertar_lotes en qr nombreTabla columnas (drop tamanoLote pendientes)
                         (c\<lparr>estado := s3,
                            totalRecords := totalRecords c + length lote,
                            bitacora := bitacora c @ linea @
                              [TransaccionCompletada (length lote) (totalRecords c + length lote)]\<rparr>)
                   | (Some e, s3) \<Rightarrow>
                       (case rollbackTransaction qr s3 of
                          (Some e', s4) \<Rightarrow>
                            c\<lparr>estado := s4, bitacora := bitacora c @ linea,
                              lanzada := Some (Error e')\<rparr>
                        | (None, s4) \<Rightarrow>
                            insertar_lotes en qr nombreTabla columnas (drop tamanoLote pendientes)
                              (c\<lparr>estado := s4,
                                 bitacora := bitacora c @ linea @ [LotePerdido (length lote)]\<rparr>))))))"
  by pat_completeness auto
termination
  by (relation "measure (\<lambda>(en, qr, nombreTabla, columnas, pendientes, c). length pendientes)")
    (auto simp: tamanoLote_def)

declare insertar_lotes.simps [simp del]

text \<open>The columns after the check for decimal numbers: an \<open>int\<close> column with one becomes \<open>decimal\<close>.\<close>

definition corregir_columnas :: "ColumnaDefinicion list \<Rightarrow> registro list \<Rightarrow> ColumnaDefinicion list" where
  "corregir_columnas columnas datos =
     (let hasDecimalNumbers =
            list_ex (\<lambda>registro. list_ex es_numero_con_decimales (map snd registro)) datos
      in if hasDecimalNumbers
         then map (\<lambda>col.
                if tipo col = ''int''
                then (let hasDecimals =
                            list_ex (\<lambda>reg. es_numero_con_decimales (obtener reg (nombre col))) datos
                      in if hasDecimals then col\<lparr>tipo := ''decimal''\<rparr> else col)
                else col) columnas
         else columnas)"

definition insertarDatosEnTabla ::
  "entorno \<Rightarrow> 's QueryRunner \<Rightarrow> string \<Rightarrow> ColumnaDefinicion list \<Rightarrow> registro list
     \<Rightarrow> 's \<Rightarrow> 's carga" where
  "insertarDatosEnTabla en qr nombreTabla columnas datos s =
     (if datos = [] then \<lparr>estado = s, totalRecords = 0, bitacora = [], lanzada = None\<rparr>
      else
        (let columnas' = corregir_columnas columnas datos;
             c = insertar_lotes en qr nombreTabla columnas' datos
                   \<lparr>estado = s, totalRecords = 0, bitacora = [], lanzada = None\<rparr>
         in if lanzada c \<noteq> None then c
            else if totalRecords c = 0
            then c\<lparr>lanzada := Some (InternalServerErrorException NingunRegistroInsertado)\<rparr>
            else if totalRecords c < length datos
            then c\<lparr>bitacora := bitacora c @ [InsercionParcial (totalRecords c) (length datos)]\<rparr>
            else c))"

text \<open>
  A database for the examples: the rows of committed and of open transactions. It
  refuses the statements that \<open>rechaza\<close> names and nothing else, and a refused statement
  leaves the open transaction usable.
\<close>

record tablas =
  confirmadas :: "consulta list"
  abiertas :: "consulta list"

definition bd_simple :: "(consulta \<Rightarrow> bool) \<Rightarrow> tablas QueryRunner" where
  "bd_simple rechaza =
     \<lparr>startTransaction = (\<lambda>s. (None, s)),
      query = (\<lambda>q s. if rechaza q then (Some ''numeric field overflow'', s)
                      else (None, s\<lparr>abiertas := abiertas s @ [q]\<rparr>)),
      commitTransaction = (\<lambda>s. (None, \<lparr>confirmadas = confirmadas s @ abiertas s, abiertas = []\<rparr>)),
      rollbackTransaction = (\<lambda>s. (None, s\<lparr>abiertas := []\<rparr>))\<rparr>"

text \<open>A database that has lost its connection when a transaction is to be committed.\<close>

definition bd_caida :: "tablas QueryRunner" where
  "bd_caida =
     \<lparr>startTransaction = (\<lambda>s. (None, s)),
      query = (\<lambda>q s. (None, s\<lparr>abiertas := abiertas s @ [q]\<rparr>)),
      commitTransaction = (\<lambda>s. (Some ''connection terminated'', s)),
      rollbackTransaction = (\<lambda>s. (None, s\<lparr>abiertas := []\<rparr>))\<rparr>"

text \<open>A \<open>NUMERIC(20,0)\<close> column refuses a number of more than twenty digits.\<close>

fun desborda_valor :: "jsval \<Rightarrow> bool" where
  "desborda_valor (JNum (Fin x)) = (10 ^ 20 \<le> \<bar>x\<bar>)"
| "desborda_valor v = False"

fun desborda :: "consulta \<Rightarrow> bool" where
  "desborda (InsertInto t cs vs) = list_ex desborda_valor vs"
| "desborda q = False"

text \<open>What the log says of a batch: its size when it was committed, and whether it was.\<close>

fun completados :: "evento \<Rightarrow> nat" where
  "completados (TransaccionCompletada n t) = n"
| "completados e = 0"

fun es_completada :: "evento \<Rightarrow> bool" where
  "es_completada (TransaccionCompletada n t) = True"
| "es_completada e = False"

fun es_perdido :: "evento \<Rightarrow> bool" where
  "es_perdido (LotePerdido n) = True"
| "es_perdido e = False"

definition lotes_cerrados :: "evento list \<Rightarrow> nat" where
  "lotes_cerrados b = length (filter es_completada b) + length (filter es_perdido b)"

section \<open>Paginated reads\<close>

text \<open>
  A row of \<open>information_schema.columns\<close> as \<open>obtenerEstructuraTabla\<close> returns it; of its
  fields the service reads the name and the type.
\<close>

type_synonym ColumnaInfo = ColumnaDefinicion

text \<open>\<open>String(n)\<close> for a natural number.\<close>

function cadena_nat :: "nat \<Rightarrow> string" where
  "cadena_nat n =
     (if n < 10 then [''0123456789'' ! n]
      else cadena_nat (n div 10) @ [''0123456789'' ! (n mod 10)])"
  by pat_completeness auto
termination
  by (relation "measure id") auto

declare cadena_nat.simps [simp del]

definition comillas :: "string \<Rightarrow> string" where
  \<open>comillas c = ''"'' @ c @ ''"''\<close>

text \<open>\<open>`"${campo}" = $${paramIndex}`\<close>\<close>

definition condicion :: "string \<Rightarrow> nat \<Rightarrow> string" where
  "condicion campo paramIndex = comillas campo @ '' = $'' @ cadena_nat paramIndex"

fun join :: "string \<Rightarrow> string list \<Rightarrow> string" where
  "join sep [] = []"
| "join sep [x] = x"
| "join sep (x # y # ys) = x @ sep @ join sep (y # ys)"

text \<open>
  The loop over \<open>Object.entries(filtros)\<close>, with \<open>condiciones\<close>, \<open>parametros\<close> and
  \<open>paramIndex\<close>.
\<close>

fun filtrar_campos ::
  "ColumnaInfo list \<Rightarrow> registro \<Rightarrow> string list \<times> jsval list \<times> nat
     \<Rightarrow> string list \<times> jsval list \<times> nat" where
  "filtrar_campos estructuraColumnas [] acc = acc"
| "filtrar_campos estructuraColumnas ((campo, valor) # resto) (condiciones, parametros, paramIndex) =
     (if list_ex (\<lambda>col. nombre col = campo) estructuraColumnas
      then filtrar_campos estructuraColumnas resto
             (condiciones @ [condicion campo paramIndex], parametros @ [valor], paramIndex + 1)
      else filtrar_campos estructuraColumnas resto (condiciones, parametros, paramIndex))"

text \<open>The text of the \<open>WHERE\<close> clause and the bound parameters.\<close>

definition construir_where :: "ColumnaInfo list \<Rightarrow> registro \<Rightarrow> string \<times> jsval list" where
  "construir_where estructuraColumnas filtros =
     (if length (Object_keys filtros) > 0
      then
        (case filtrar_campos estructuraColumnas filtros ([], [], 1) of
           (condiciones, parametros, paramIndex) \<Rightarrow>
             if length condiciones > 0
             then ('' WHERE '' @ join '' AND '' condiciones, parametros)
             else ([], parametros))
      else ([], []))"

text \<open>
  The database as the reading operations meet it. \<open>tabla_existe\<close> and \<open>estructura\<close> are
  the answers to \<open>verificarTablaExiste\<close> and \<open>obtenerEstructuraTabla\<close>; \<open>filas\<close> gives,
  for a table, the text of a \<open>WHERE\<close> clause and its parameters, the rows the engine
  selects, in the order in which it reads them. Each may fail with the message of the
  driver's error.
\<close>

record lector =
  tabla_existe :: "string \<Rightarrow> string + bool"
  estructura :: "string \<Rightarrow> string + ColumnaInfo list"
  filas :: "string \<Rightarrow> string \<Rightarrow> jsval list \<Rightarrow> string + registro list"

text \<open>
  \<open>SELECT * ... LIMIT limit OFFSET offset\<close> over the selected rows: the engine refuses a
  negative limit or offset.
\<close>

definition limit_offset :: "registro list \<Rightarrow> int \<Rightarrow> int \<Rightarrow> string + registro list" where
  "limit_offset seleccionadas limite desplazamiento =
     (if limite < 0 then Inl ''LIMIT must not be negative''
      else if desplazamiento < 0 then Inl ''OFFSET must not be negative''
      else Inr (take (nat limite) (drop (nat desplazamiento) seleccionadas)))"

text \<open>\<open>String.prototype.trim\<close>\<close>

definition trim :: "string \<Rightarrow> string" where
  "trim s = rev (dropWhile es_espacio (rev (dropWhile es_espacio s)))"

text \<open>
  \<open>limpiarDatosTabla\<close>: what the property \<open>clave\<close> of the cleaned record holds after the
  body of the loop; every test reads the value the record had before.
\<close>

definition limpiar_valor :: "entorno \<Rightarrow> string list \<Rightarrow> string list \<Rightarrow> string \<Rightarrow> jsval \<Rightarrow> jsval" where
  "limpiar_valor en columnasOcultas columnasLimpiar clave valor =
     (if clave \<in> set columnasOcultas then JNull
      else
        (let v1 = (case valor of
                     JStr s \<Rightarrow> if clave \<in> set columnasLimpiar then JStr (trim s) else valor
                   | _ \<Rightarrow> valor);
             v2 = (if valor = JUndefined \<or> valor = JStr [] then JNull else v1)
         in case valor of
              JStr s \<Rightarrow>
                if CHR ''-'' \<in> set s \<or> CHR ''/'' \<in> set s
                then (case Date_de en s of Some t \<Rightarrow> JStr (fecha_iso en t) | None \<Rightarrow> v2)
                else v2
            | _ \<Rightarrow> v2))"

definition limpiarDatosTabla ::
  "entorno \<Rightarrow> registro list \<Rightarrow> string list \<Rightarrow> string list \<Rightarrow> registro list" where
  "limpiarDatosTabla en filas_leidas columnasOcultas columnasLimpiar =
     (if filas_leidas = [] then filas_leidas
      else map (\<lambda>registro.
             map (\<lambda>(clave, valor).
               (clave, limpiar_valor en columnasOcultas columnasLimpiar clave valor)) registro)
           filas_leidas)"

record opcionesVisualizacion =
  columnasOcultas :: "string list"
  columnasLimpiar :: "string list"
  aplicarLimpieza :: bool

record TablaDatos =
  td_nombreTabla :: string
  td_columnas :: "ColumnaInfo list"
  td_datos :: "registro list"
  td_totalRegistros :: nat
  td_page :: int
  td_limit :: int
  td_totalPages :: numero

text \<open>
  \<open>obtenerDatosTabla\<close> for an integer page and limit. An error of the driver becomes an
  \<open>InternalServerErrorException\<close>; a missing table is a \<open>NotFoundException\<close>.
\<close>

definition obtenerDatosTabla ::
  "entorno \<Rightarrow> lector \<Rightarrow> string \<Rightarrow> int \<Rightarrow> int \<Rightarrow> registro \<Rightarrow> opcionesVisualizacion
     \<Rightarrow> excepcion + TablaDatos" where
  "obtenerDatosTabla en bd nombreTabla pagina limite filtros opciones =
     (case tabla_existe bd nombreTabla of
        Inl m \<Rightarrow> Inl (InternalServerErrorException ErrorObtenerDatos)
      | Inr tablaExiste \<Rightarrow>
          if \<not> tablaExiste then Inl (NotFoundException (TablaNoExiste nombreTabla))
          else
            (case estructura bd nombreTabla of
               Inl m \<Rightarrow> Inl (InternalServerErrorException ErrorObtenerDatos)
             | Inr estructuraColumnas \<Rightarrow>
                 (case construir_where estructuraColumnas filtros of
                    (whereClause, parametros) \<Rightarrow>
                      (case filas bd nombreTabla whereClause parametros of
                         Inl m \<Rightarrow> Inl (InternalServerErrorException ErrorObtenerDatos)
                       | Inr seleccionadas \<Rightarrow>
                           (let totalRegistros = length seleccionadas;
                                offset = (pagina - 1) * limite
                            in case limit_offset seleccionadas limite offset of
                                 Inl m \<Rightarrow> Inl (InternalServerErrorException ErrorObtenerDatos)
                               | Inr leidas \<Rightarrow>
                                   Inr \<lparr>td_nombreTabla = nombreTabla,
                                        td_columnas = estructuraColumnas,
                                        td_datos =
                                          (if aplicarLimpieza opciones
                                           then limpiarDatosTabla en leidas
                                                  (columnasOcultas opciones)
                                                  (columnasLimpiar opciones)
                                           else leidas),
                                        td_totalRegistros = totalRegistros,
                                        td_page = pagina,
                                        td_limit = limite,
                                        td_totalPages =
                                          Math_ceil (dividir (of_nat totalRegistros)
                                                             (of_int limite))\<rparr>)))))"

text \<open>A database for the examples: one table \<open>compras\<close> of 25 rows, read without filter.\<close>

definition bd_ejemplo :: lector where
  "bd_ejemplo =
     \<lparr>tabla_existe = (\<lambda>t. Inr (t = ''compras'')),
      estructura = (\<lambda>t. Inr [\<lparr>nombre = ''id'', tipo = ''integer'', esNullable = False\<rparr>,
                               \<lparr>nombre = ''estado'', tipo = ''text'', esNullable = True\<rparr>]),
      filas = (\<lambda>t w ps. if w = [] then Inr (map (\<lambda>i. [(''id'', JNum (Fin (of_nat i)))]) [1 ..< 26])
                          else Inl ''syntax error'')\<rparr>"

text \<open>
  The filters in words: the entries of the filter whose key names a column, numbered
  from one.
\<close>

definition filtros_validos :: "ColumnaInfo list \<Rightarrow> registro \<Rightarrow> registro" where
  "filtros_validos estructuraColumnas filtros =
     filter (\<lambda>(campo, valor). campo \<in> nombre ` set estructuraColumnas) filtros"

definition condiciones_de :: "registro \<Rightarrow> string list" where
  "condiciones_de validos =
     map (\<lambda>(i, (campo, valor)). condicion campo i) (enumerate 1 validos)"

section \<open>Row mutations\<close>

text \<open>
  \<open>actualizarRegistro\<close>, from the structure of the table to the statement: the fields of
  the body that name a column other than \<open>id\<close>, sanitised, become the \<open>SET\<close> clauses.
\<close>

definition datosFiltrados_actualizar :: "entorno \<Rightarrow> ColumnaInfo list \<Rightarrow> registro \<Rightarrow> registro" where
  "datosFiltrados_actualizar en estructura_tabla cuerpo =
     (let camposValidos = map nombre estructura_tabla in
      fold (\<lambda>(campo, valor) datosFiltrados.
              if campo \<in> set camposValidos \<and> campo \<noteq> ''id''
              then (case find (\<lambda>col. nombre col = campo) estructura_tabla of
                      Some columnaInfo \<Rightarrow>
                        asignar campo (sanitizarValorSegunTipo en valor (tipo columnaInfo))
                          datosFiltrados
                    | None \<Rightarrow> datosFiltrados)
              else datosFiltrados)
           cuerpo [])"

definition actualizar_consulta ::
  "entorno \<Rightarrow> ColumnaInfo list \<Rightarrow> string \<Rightarrow> int \<Rightarrow> registro \<Rightarrow> excepcion + consulta" where
  "actualizar_consulta en estructura_tabla nombreTabla id_fila cuerpo =
     (let datosFiltrados = datosFiltrados_actualizar en estructura_tabla cuerpo in
      if length (Object_keys datosFiltrados) = 0 then Inl (BadRequestException SinCamposValidos)
      else Inr (UpdateSet nombreTabla (map fst datosFiltrados) (map snd datosFiltrados) id_fila))"

text \<open>
  \<open>agregarRegistro\<close>, likewise. The type of a column that has none is \<open>varchar\<close>; each
  value is read back under the quoted name with its quotes removed.
\<close>

definition datosFiltrados_agregar :: "entorno \<Rightarrow> ColumnaInfo list \<Rightarrow> registro \<Rightarrow> registro" where
  "datosFiltrados_agregar en estructura_tabla cuerpo =
     (let camposValidos = filter (\<lambda>n. n \<noteq> ''id'') (map nombre estructura_tabla) in
      fold (\<lambda>(campo, valor) datosFiltrados.
              if campo \<in> set camposValidos
              then (let tipoColumna =
                          (case find (\<lambda>col. nombre col = campo) estructura_tabla of
                             Some col \<Rightarrow> (if tipo col = [] then ''varchar'' else tipo col)
                           | None \<Rightarrow> ''varchar'')
                    in asignar campo (sanitizarValorSegunTipo en valor tipoColumna) datosFiltrados)
              else datosFiltrados)
           cuerpo [])"

definition quitar_comillas :: "string \<Rightarrow> string" where
  \<open>quitar_comillas c = filter (\<lambda>x. x \<noteq> CHR ''"'') c\<close>

definition agregar_consulta ::
  "entorno \<Rightarrow> ColumnaInfo list \<Rightarrow> string \<Rightarrow> registro \<Rightarrow> excepcion + consulta" where
  "agregar_consulta en estructura_tabla nombreTabla cuerpo =
     (let datosFiltrados = datosFiltrados_agregar en estructura_tabla cuerpo in
      if length (Object_keys datosFiltrados) = 0 then Inl (BadRequestException SinCamposValidos)
      else
        (let campos = map comillas (Object_keys datosFiltrados);
             valores = map (\<lambda>c. obtener datosFiltrados (quitar_comillas c)) campos
         in Inr (InsertReturning nombreTabla (Object_keys datosFiltrados) valores)))"

text \<open>
  A table for the mutations: its name, its structure, its rows (each with its \<open>id\<close>) and
  the last value of the sequence behind \<open>id\<close>. A statement changes it as SQL says: an
  \<open>UPDATE\<close> assigns the named columns in the rows of the given id and reports how many
  rows it met (the driver answers \<open>[rows, count]\<close>); an \<open>INSERT\<close> adds a row whose
  \<open>id\<close> is the next value of the sequence unless the statement names the column \<open>id\<close>
  itself, and with \<open>RETURNING id\<close> answers the row \<open>{id}\<close>.
\<close>

record almacen =
  a_tabla :: string
  a_estructura :: "ColumnaInfo list"
  a_filas :: "registro list"
  a_serial :: int

definition tiene_id :: "int \<Rightarrow> registro \<Rightarrow> bool" where
  "tiene_id i fila = (obtener fila ''id'' = JNum (Fin (of_int i)))"

definition asignar_todos :: "string list \<Rightarrow> jsval list \<Rightarrow> registro \<Rightarrow> registro" where
  "asignar_todos campos valores fila =
     fold (\<lambda>(c, v) f. AList.update c v f) (zip campos valores) fila"

fun ejecutar :: "consulta \<Rightarrow> almacen \<Rightarrow> jsval list \<times> almacen" where
  "ejecutar (UpdateSet t campos valores i) alm =
     ([JArr [], JNum (Fin (of_nat (length (filter (tiene_id i) (a_filas alm)))))],
      alm\<lparr>a_filas := map (\<lambda>fila. if tiene_id i fila then asignar_todos campos valores fila
                                   else fila) (a_filas alm)\<rparr>)"
| "ejecutar (InsertReturning t campos valores) alm =
     (let fila = asignar_todos campos valores [(''id'', JNum (Fin (of_int (a_serial alm + 1))))]
      in ([JObj [(''id'', obtener fila ''id'')]],
          alm\<lparr>a_filas := a_filas alm @ [fila], a_serial := a_serial alm + 1\<rparr>))"
| "ejecutar (InsertInto t campos valores) alm =
     (let fila = asignar_todos campos valores [(''id'', JNum (Fin (of_int (a_serial alm + 1))))]
      in ([], alm\<lparr>a_filas := a_filas alm @ [fila], a_serial := a_serial alm + 1\<rparr>))"

text \<open>
  The two mutations on this table. An exception rolls the transaction back, so the table
  is then the one before the call.
\<close>

definition actualizarRegistro ::
  "entorno \<Rightarrow> almacen \<Rightarrow> string \<Rightarrow> int \<Rightarrow> registro \<Rightarrow> (excepcion + unit) \<times> almacen" where
  "actualizarRegistro en alm nombreTabla id_fila cuerpo =
     (if nombreTabla \<noteq> a_tabla alm then (Inl (NotFoundException (TablaNoExiste nombreTabla)), alm)
      else if \<not> list_ex (tiene_id id_fila) (a_filas alm)
      then (Inl (NotFoundException RegistroNoEncontrado), alm)
      else
        (case actualizar_consulta en (a_estructura alm) nombreTabla id_fila cuerpo of
           Inl e \<Rightarrow> (Inl e, alm)
         | Inr q \<Rightarrow>
             (case ejecutar q alm of
                (resultado, alm') \<Rightarrow>
                  if 1 < length resultado \<and> resultado ! 1 = JNum (Fin 0)
                  then (Inl (NotFoundException NoActualizado), alm)
                  else (Inr (), alm'))))"

definition agregarRegistro ::
  "entorno \<Rightarrow> almacen \<Rightarrow> string \<Rightarrow> registro \<Rightarrow> (excepcion + jsval) \<times> almacen" where
  "agregarRegistro en alm nombreTabla cuerpo =
     (if nombreTabla \<noteq> a_tabla alm then (Inl (NotFoundException (TablaNoExiste nombreTabla)), alm)
      else
        (case agregar_consulta en (a_estructura alm) nombreTabla cuerpo of
           Inl e \<Rightarrow> (Inl e, alm)
         | Inr q \<Rightarrow>
             (case ejecutar q alm of
                (resultado, alm') \<Rightarrow>
                  (Inr (case resultado of JObj fila # _ \<Rightarrow> obtener fila ''id''
                                        | _ \<Rightarrow> JUndefined), alm'))))"

section \<open>Properties of table-name validation\<close>

lemma minuscula_fija:
  "es_minuscula c \<or> es_digito c \<or> c = CHR ''_'' \<Longrightarrow> minuscula c = c"
  by (auto simp: minuscula_def es_minuscula_def es_digito_def Let_def)

lemma validRegex_toLowerCase: "validRegex n \<Longrightarrow> toLowerCase n = n"
proof (cases n)
  case Nil
  then show "validRegex n \<Longrightarrow> toLowerCase n = n" by simp
next
  case (Cons c cs)
  assume v: "validRegex n"
  from v Cons have c: "minuscula c = c"
    by (simp add: minuscula_fija)
  from v Cons have "\<forall>d\<in>set cs. minuscula d = d"
    by (auto simp: list_all_iff minuscula_fija)
  then have "map minuscula cs = cs"
    by (simp add: map_idI)
  with c Cons show "toLowerCase n = n"
    by (simp add: toLowerCase_def)
qed

text \<open>
  C7. Creating a table fails with a validation error (\<open>BadRequestException\<close>) exactly when
  the requested name does not match \<open>^[a-z][a-z0-9_]*$\<close> or, lower-cased, is one of the
  reserved words; the error reaches the caller of \<open>create\<close> unchanged. The name
  \<open>select\<close> is rejected as a reserved word, and a name that passes both checks raises
  nothing.
\<close>

theorem validarNombreTabla_valida:
  "((\<exists>m. validarNombreTabla n = Inl (BadRequestException m)
          \<and> create n resto = Inl (BadRequestException m))
      = (\<not> validRegex n \<or> toLowerCase n \<in> set palabrasReservadas))
   \<and> ((validarNombreTabla n = Inr ())
      = (validRegex n \<and> toLowerCase n \<notin> set palabrasReservadas))
   \<and> validarNombreTabla ''select'' = Inl (BadRequestException (PalabraReservada ''select''))"
proof -
  have s: "validarNombreTabla ''select'' = Inl (BadRequestException (PalabraReservada ''select''))"
    by code_simp
  show ?thesis
    unfolding s by (auto simp: validarNombreTabla_def create_def)
qed

theorem validarNombreTabla_valida_witness:
  "(\<exists>m. validarNombreTabla ''Select'' = Inl (BadRequestException m)
         \<and> create ''Select'' (Inr True) = Inl (BadRequestException m))
   \<and> validarNombreTabla ''compras_2024'' = Inr ()"
proof -
  have a: "\<not> validRegex ''Select''" by code_simp
  have b: "validRegex ''compras_2024'' \<and> toLowerCase ''compras_2024'' \<notin> set palabrasReservadas"
    by code_simp
  from a b show ?thesis
    using validarNombreTabla_valida [of "''Select''" "Inr True"]
      validarNombreTabla_valida [of "''compras_2024''" "Inr True"]
    by blast
qed


section \<open>Properties of column-name normalisation\<close>

lemma map_of_mapaNombres:
  "map_of (fold (\<lambda>columna m. if columna = ''__proto__'' then m
                               else AList.update columna (g columna) m) cols acc) k =
     (if k \<in> set cols \<and> k \<noteq> ''__proto__'' then Some (g k) else map_of acc k)"
  by (induction cols arbitrary: acc) (auto simp: update_conv')

lemma nombreNormalizado_vacio: "nombreNormalizado k = [] \<Longrightarrow> k = []"
  by (simp add: nombreNormalizado_def toLowerCase_def)

lemma Object_prototype_None:
  "k \<notin> set object_prototype_keys \<Longrightarrow> Object_prototype k = None \<and> k \<noteq> ''__proto__''"
  by (auto simp: Object_prototype_def object_prototype_keys_def)

lemma buscar_nombre_mapa:
  "k \<notin> set object_prototype_keys \<Longrightarrow>
   buscar_nombre (mapaNombres_de cols) k = nombre_final cols k"
  by (auto simp: buscar_nombre_def mapaNombres_de_def map_of_mapaNombres nombre_final_def
      dest: nombreNormalizado_vacio Object_prototype_None)

lemma nombre_final_ordinaria:
  "clave_ordinaria k \<Longrightarrow>
   buscar_nombre (mapaNombres_de cols) k = nombre_final cols k
   \<and> nombre_final cols k \<noteq> ''__proto__''"
  by (auto simp: clave_ordinaria_def buscar_nombre_mapa nombre_final_def
      dest: Object_prototype_None)

lemma map_of_fold_asignar:
  assumes "\<forall>k \<in> set (map fst r). f k = g k \<and> g k \<noteq> ''__proto__''"
  shows "map_of (fold (\<lambda>(k, v) nuevo. asignar (f k) v nuevo) r acc)
     = map_of acc ++ map_of (rev (map (\<lambda>(k, v). (g k, v)) r))"
  using assms
proof (induction r arbitrary: acc)
  case Nil
  show ?case by simp
next
  case (Cons p r)
  obtain k v where p: "p = (k, v)" by (cases p)
  let ?M = "map_of (rev (map (\<lambda>(k, v). (g k, v)) r))"
  from Cons.prems have fk: "f k = g k" and gk: "g k \<noteq> ''__proto__''"
    and resto: "\<forall>k \<in> set (map fst r). f k = g k \<and> g k \<noteq> ''__proto__''"
    by (simp_all add: p)
  have a: "map_of (asignar (f k) v acc) = map_of acc ++ [g k \<mapsto> v]"
    by (simp add: asignar_def update_conv' fk gk)
  have "map_of (fold (\<lambda>(k, v) nuevo. asignar (f k) v nuevo) (p # r) acc)
          = map_of (asignar (f k) v acc) ++ ?M"
    by (simp add: p Cons.IH [OF resto])
  also have "\<dots> = map_of acc ++ ([g k \<mapsto> v] ++ ?M)"
    by (simp only: a map_add_assoc)
  also have "[g k \<mapsto> v] ++ ?M = map_of (rev (map (\<lambda>(k, v). (g k, v)) (p # r)))"
    by (simp add: p)
  finally show ?case .
qed

lemma map_of_renombrar:
  assumes "\<forall>k \<in> set (map fst r). buscar_nombre m k = g k \<and> g k \<noteq> ''__proto__''"
  shows "map_of (renombrar m r) = map_of (rev (map (\<lambda>(k, v). (g k, v)) r))"
  by (simp add: renombrar_def map_of_fold_asignar [OF assms])

lemma keys_renombrar:
  assumes "\<forall>k \<in> set (map fst r). buscar_nombre m k = g k \<and> g k \<noteq> ''__proto__''"
  shows "set (Object_keys (renombrar m r)) = g ` set (Object_keys r)"
proof -
  have "set (Object_keys (renombrar m r)) = dom (map_of (renombrar m r))"
    by (simp add: Object_keys_def dom_map_of_conv_image_fst)
  also have "\<dots> = fst ` set (map (\<lambda>(k, v). (g k, v)) r)"
    by (simp add: map_of_renombrar [OF assms] dom_map_of_conv_image_fst del: set_map)
  also have "\<dots> = g ` set (Object_keys r)"
    by (force simp: Object_keys_def)
  finally show ?thesis .
qed

lemma valor_renombrar:
  assumes "\<forall>k \<in> set (map fst r). buscar_nombre m k = g k \<and> g k \<noteq> ''__proto__''"
    and "map_of (renombrar m r) k' = Some v"
  shows "\<exists>k. (k, v) \<in> set r \<and> g k = k'"
proof -
  from assms(2) have "(k', v) \<in> set (rev (map (\<lambda>(k, v). (g k, v)) r))"
    by (simp add: map_of_renombrar [OF assms(1)] map_of_SomeD del: set_rev)
  then show ?thesis by auto
qed

lemma valor_renombrar_inj:
  assumes "\<forall>k \<in> set (map fst r). buscar_nombre m k = g k \<and> g k \<noteq> ''__proto__''"
    and "distinct (map fst r)" and "inj_on g (set (Object_keys r))"
    and "(k, v) \<in> set r"
  shows "map_of (renombrar m r) (g k) = Some v"
proof -
  let ?l = "map (\<lambda>(k, v). (g k, v)) r"
  have "map fst ?l = map g (map fst r)"
    by (induction r) auto
  with assms(2,3) have "distinct (map fst (rev ?l))"
    by (simp add: distinct_map Object_keys_def rev_map [symmetric] del: map_map)
  moreover from assms(4) have "(g k, v) \<in> set (rev ?l)"
    by force
  ultimately have "map_of (rev ?l) (g k) = Some v"
    by (rule map_of_is_SomeI)
  then show ?thesis by (simp add: map_of_renombrar [OF assms(1)])
qed

lemma normalizar_miembro_heredado:
  "normalizarNombresColumnas [[(''a b'', JNum (Fin 1))], [(''constructor'', JNum (Fin 2))]]
     = [[(''a_b'', JNum (Fin 1))], [(''function Object() { [native code] }'', JNum (Fin 2))]]"
  by code_simp

lemma normalizar_identidad:
  "\<not> list_ex necesita_normalizar (Object_keys primero) \<Longrightarrow>
   normalizarNombresColumnas (primero # resto) = primero # resto"
  by (simp add: Let_def)

text \<open>
  C2 as stated does not hold. A spreadsheet whose first row leaves the cell of a column
  empty gives a first record without that key; the key of the later record is then not in
  the map and stays as it was, outside every set of normalised names.
\<close>

theorem normalizar_counterexample:
  "list_ex necesita_normalizar (Object_keys [(''Monto Total'', JNum (Fin 100))])
   \<and> normalizarNombresColumnas
        [[(''Monto Total'', JNum (Fin 100))],
         [(''Monto Total'', JNum (Fin 200)), (''Fecha Entrega'', JStr ''x'')]]
      = [[(''monto_total'', JNum (Fin 100))],
         [(''monto_total'', JNum (Fin 200)), (''Fecha Entrega'', JStr ''x'')]]
   \<and> necesita_normalizar ''Fecha Entrega''
   \<and> ''Fecha Entrega'' \<notin> nombreNormalizado ` set [''Monto Total'', ''Fecha Entrega'']"
  by code_simp

text \<open>
  C2, amended, for records of ordinary keys (no key is the name of a member of
  \<open>Object.prototype\<close> or normalises to \<open>__proto__\<close>). When a key of the first record
  needs normalisation, one map is computed from the keys of the first record and applied
  to every record: the result has the same records in the same order; in each record a
  key of the first record is replaced by its normalised form (every character outside
  \<open>[A-Za-z0-9_]\<close> replaced by \<open>_\<close>, then lower-cased) and any other key is kept
  unchanged; every value of the result is the value of an input key with that final name,
  and where the final names of a record do not collide every value is kept under its
  final name. If the keys of every record are among the keys of the first record, then
  all records of the result carry keys of the one normalised key set.
\<close>

theorem normalizar_amended:
  assumes "list_ex necesita_normalizar (Object_keys primero)"
    and "list_all registro_ok (primero # resto)"
  shows "length (normalizarNombresColumnas (primero # resto)) = length (primero # resto)
    \<and> (\<forall>i < length (primero # resto).
          set (Object_keys (normalizarNombresColumnas (primero # resto) ! i))
            = nombre_final (Object_keys primero) ` set (Object_keys ((primero # resto) ! i))
          \<and> (\<forall>k' v. map_of (normalizarNombresColumnas (primero # resto) ! i) k' = Some v \<longrightarrow>
                (\<exists>k. (k, v) \<in> set ((primero # resto) ! i) \<and> nombre_final (Object_keys primero) k = k'))
          \<and> (inj_on (nombre_final (Object_keys primero)) (set (Object_keys ((primero # resto) ! i))) \<longrightarrow>
                (\<forall>(k, v) \<in> set ((primero # resto) ! i).
                   map_of (normalizarNombresColumnas (primero # resto) ! i)
                     (nombre_final (Object_keys primero) k) = Some v)))
    \<and> ((\<forall>r \<in> set (primero # resto). set (Object_keys r) \<subseteq> set (Object_keys primero)) \<longrightarrow>
          (\<forall>r \<in> set (normalizarNombresColumnas (primero # resto)).
             set (Object_keys r) \<subseteq> nombreNormalizado ` set (Object_keys primero)))"
proof -
  let ?datos = "primero # resto"
  let ?m = "mapaNombres_de (Object_keys primero)"
  let ?g = "nombre_final (Object_keys primero)"
  have out: "normalizarNombresColumnas ?datos = map (renombrar ?m) ?datos"
    using assms(1) by (simp add: Let_def)
  have b: "\<forall>k \<in> set (map fst r). buscar_nombre ?m k = ?g k \<and> ?g k \<noteq> ''__proto__''"
    if "registro_ok r" for r
    using that by (auto simp: registro_ok_def list_all_iff dest: nombre_final_ordinaria)
  have len: "length (normalizarNombresColumnas ?datos) = length ?datos"
    unfolding out by simp
  have each: "set (Object_keys (normalizarNombresColumnas ?datos ! i))
            = nombre_final (Object_keys primero) ` set (Object_keys (?datos ! i))
          \<and> (\<forall>k' v. map_of (normalizarNombresColumnas ?datos ! i) k' = Some v \<longrightarrow>
                (\<exists>k. (k, v) \<in> set (?datos ! i) \<and> nombre_final (Object_keys primero) k = k'))
          \<and> (inj_on (nombre_final (Object_keys primero)) (set (Object_keys (?datos ! i))) \<longrightarrow>
                (\<forall>(k, v) \<in> set (?datos ! i).
                   map_of (normalizarNombresColumnas ?datos ! i)
                     (nombre_final (Object_keys primero) k) = Some v))"
    if i: "i < length ?datos" for i
  proof -
    have nth: "normalizarNombresColumnas ?datos ! i = renombrar ?m (?datos ! i)"
      unfolding out using i by (rule nth_map)
    from assms(2) i have ok: "registro_ok (?datos ! i)"
      unfolding list_all_length by blast
    then have d: "distinct (map fst (?datos ! i))"
      by (simp add: registro_ok_def)
    show ?thesis
      unfolding nth
      using keys_renombrar [OF b [OF ok]] valor_renombrar [OF b [OF ok]]
        valor_renombrar_inj [OF b [OF ok] d]
      by fast
  qed
  have sub: "\<forall>r \<in> set (normalizarNombresColumnas ?datos).
             set (Object_keys r) \<subseteq> nombreNormalizado ` set (Object_keys primero)"
    if h: "\<forall>r \<in> set ?datos. set (Object_keys r) \<subseteq> set (Object_keys primero)"
  proof
    fix r' assume "r' \<in> set (normalizarNombresColumnas ?datos)"
    then obtain r where r: "r \<in> set ?datos" and r': "r' = renombrar ?m r"
      unfolding out by auto
    from assms(2) r have ok: "registro_ok r"
      unfolding list_all_iff by blast
    from h r have "set (Object_keys r) \<subseteq> set (Object_keys primero)" by blast
    then show "set (Object_keys r') \<subseteq> nombreNormalizado ` set (Object_keys primero)"
      unfolding r' keys_renombrar [OF b [OF ok]] by (auto simp: nombre_final_def)
  qed
  from len each sub show ?thesis by blast
qed

theorem normalizar_amended_witness:
  "length (normalizarNombresColumnas
        [[(''Monto Total'', JNum (Fin 100))],
         [(''Monto Total'', JNum (Fin 200)), (''Fecha Entrega'', JStr ''x'')]]) = 2
   \<and> set (Object_keys (normalizarNombresColumnas
        [[(''Monto Total'', JNum (Fin 100))],
         [(''Monto Total'', JNum (Fin 200)), (''Fecha Entrega'', JStr ''x'')]] ! 1))
      = {''monto_total'', ''Fecha Entrega''}"
proof -
  let ?primero = "[(''Monto Total'', JNum (Fin 100))]"
  let ?resto = "[[(''Monto Total'', JNum (Fin 200)), (''Fecha Entrega'', JStr ''x'')]]"
  have a: "list_ex necesita_normalizar (Object_keys ?primero)"
    by code_simp
  have b: "list_all registro_ok (?primero # ?resto)"
    by code_simp
  have c: "nombre_final (Object_keys ?primero) ` set (Object_keys ((?primero # ?resto) ! 1))
      = {''monto_total'', ''Fecha Entrega''}"
    by code_simp
  have d: "(1::nat) < length (?primero # ?resto)"
    by simp
  from normalizar_amended [OF a b] d c show ?thesis
    by auto
qed

section \<open>Properties of type inference\<close>

lemma length_map_filter_eq:
  "(length (List.map_filter f xs) = length xs) = (\<forall>x \<in> set xs. f x \<noteq> None)"
proof (induction xs)
  case Nil
  show ?case by (simp add: List.map_filter_simps)
next
  case (Cons x xs)
  have le: "length (List.map_filter f xs) \<le> length xs"
    by (simp add: List.map_filter_def) 
  show ?case
  proof (cases "f x")
    case None
    with le show ?thesis by (simp add: List.map_filter_simps)
  next
    case (Some y)
    with Cons show ?thesis by (simp add: List.map_filter_simps)
  qed
qed

lemma list_ex_map_filter:
  "list_ex P (List.map_filter f xs) = (\<exists>x \<in> set xs. \<exists>y. f x = Some y \<and> P y)"
  by (induction xs) (auto simp: List.map_filter_simps split: option.splits)

lemma potentialNumber_Some:
  "(potentialNumber v = Some c) = (\<exists>s. v = JStr s \<and> Number_no_NaN (limpiar_numero s) \<and> c = limpiar_numero s)"
  by (cases v) (auto simp: Let_def)

lemma potentialNumber_None:
  "(potentialNumber v \<noteq> None) = (\<exists>s. v = JStr s \<and> Number_no_NaN (limpiar_numero s))"
  by (cases v) (auto simp: Let_def)

lemma hayValorNoNumerico_iff:
  "hayValorNoNumerico v = (\<exists>s. v = JStr s \<and> contiene_no_numerico s)"
  by (cases v) auto

lemma inferir_tipo_string:
  "inferir_tipo (JStr s0 # resto) =
     (if \<exists>v \<in> set (JStr s0 # resto). \<exists>s. v = JStr s \<and> contiene_no_numerico s then ''text''
      else if \<forall>v \<in> set (JStr s0 # resto). \<exists>s. v = JStr s \<and> Number_no_NaN (limpiar_numero s)
      then (if \<exists>v \<in> set (JStr s0 # resto). \<exists>s. v = JStr s \<and> CHR ''.'' \<in> set (limpiar_numero s)
            then ''decimal'' else ''int'')
      else ''text'')"
proof -
  let ?vs = "JStr s0 # resto"
  have a: "list_ex hayValorNoNumerico ?vs = (\<exists>v \<in> set ?vs. \<exists>s. v = JStr s \<and> contiene_no_numerico s)"
    unfolding list_ex_iff hayValorNoNumerico_iff ..
  have b: "(length (List.map_filter potentialNumber ?vs) = length ?vs)
      = (\<forall>v \<in> set ?vs. \<exists>s. v = JStr s \<and> Number_no_NaN (limpiar_numero s))"
    unfolding length_map_filter_eq potentialNumber_None ..
  have c: "list_ex (\<lambda>v. CHR ''.'' \<in> set v) (List.map_filter potentialNumber ?vs)
      = (\<exists>v \<in> set ?vs. \<exists>s. v = JStr s \<and> CHR ''.'' \<in> set (limpiar_numero s))"
    if "\<forall>v \<in> set ?vs. \<exists>s. v = JStr s \<and> Number_no_NaN (limpiar_numero s)"
    unfolding list_ex_map_filter potentialNumber_Some using that by fastforce
  have "inferir_tipo ?vs =
     (if list_ex hayValorNoNumerico ?vs then ''text''
      else if length (List.map_filter potentialNumber ?vs) = length ?vs
      then (if list_ex (\<lambda>v. CHR ''.'' \<in> set v) (List.map_filter potentialNumber ?vs)
            then ''decimal'' else ''int'')
      else ''text'')"
    by (simp add: inferir_tipo_def Let_def)
  then show ?thesis
    unfolding a b using c by presburger
qed

lemma es_digito_iff: "es_digito c = (c \<in> set ''0123456789'')"
proof
  have a: "map char_of [48 ..< 58 :: nat] = ''0123456789''"
    by code_simp
  assume "es_digito c"
  then have "(of_char c :: nat) \<in> set [48 ..< 58]"
    by (simp only: set_upt) (simp add: es_digito_def)
  then have "char_of (of_char c :: nat) \<in> set (map char_of [48 ..< 58 :: nat])"
    by (simp only: set_map) (rule imageI)
  then show "c \<in> set ''0123456789''"
    by (simp only: a char_of_char)
next
  have b: "map of_char ''0123456789'' = [48 ..< 58 :: nat]"
    by code_simp
  assume "c \<in> set ''0123456789''"
  then have "(of_char c :: nat) \<in> set (map of_char ''0123456789'')"
    by (simp only: set_map) (rule imageI)
  then show "es_digito c"
    by (simp only: b set_upt) (simp add: es_digito_def)
qed

lemma es_letra_iff:
  "es_letra c = (c \<in> set (''abcdefghijklmnopqrstuvwxyz'' @ ''ABCDEFGHIJKLMNOPQRSTUVWXYZ''))"
proof
  have a: "map char_of [97 ..< 123 :: nat] = ''abcdefghijklmnopqrstuvwxyz''"
    and a': "map char_of [65 ..< 91 :: nat] = ''ABCDEFGHIJKLMNOPQRSTUVWXYZ''"
    by code_simp+
  assume "es_letra c"
  then have "(of_char c :: nat) \<in> set ([97 ..< 123] @ [65 ..< 91])"
    by (simp only: set_append set_upt) (auto simp: es_letra_def es_minuscula_def es_mayuscula_def)
  then have "char_of (of_char c :: nat) \<in> set (map char_of ([97 ..< 123 :: nat] @ [65 ..< 91]))"
    by (simp only: set_map) (rule imageI)
  then show "c \<in> set (''abcdefghijklmnopqrstuvwxyz'' @ ''ABCDEFGHIJKLMNOPQRSTUVWXYZ'')"
    by (simp only: map_append a a' char_of_char)
next
  have b: "map of_char (''abcdefghijklmnopqrstuvwxyz'' @ ''ABCDEFGHIJKLMNOPQRSTUVWXYZ'')
             = [97 ..< 123 :: nat] @ [65 ..< 91]"
    by code_simp
  assume "c \<in> set (''abcdefghijklmnopqrstuvwxyz'' @ ''ABCDEFGHIJKLMNOPQRSTUVWXYZ'')"
  then have "(of_char c :: nat) \<in> set (map of_char
      (''abcdefghijklmnopqrstuvwxyz'' @ ''ABCDEFGHIJKLMNOPQRSTUVWXYZ''))"
    by (simp only: set_map) (rule imageI)
  then show "es_letra c"
    by (simp only: b set_append set_upt) (auto simp: es_letra_def es_minuscula_def es_mayuscula_def)
qed

lemma es_espacio_iff:
  "es_espacio c = (c \<in> set [CHR 0x09, CHR 0x0A, CHR 0x0B, CHR 0x0C, CHR 0x0D, CHR 0x20, CHR 0xA0])"
proof
  have a: "map char_of [9, 10, 11, 12, 13, 32, 160 :: nat]
             = [CHR 0x09, CHR 0x0A, CHR 0x0B, CHR 0x0C, CHR 0x0D, CHR 0x20, CHR 0xA0]"
    by code_simp
  assume "es_espacio c"
  then have "(of_char c :: nat) \<in> set [9, 10, 11, 12, 13, 32, 160]"
    by (simp add: es_espacio_def)
  then have "char_of (of_char c :: nat) \<in> set (map char_of [9, 10, 11, 12, 13, 32, 160 :: nat])"
    by (simp only: set_map) (rule imageI)
  then show "c \<in> set [CHR 0x09, CHR 0x0A, CHR 0x0B, CHR 0x0C, CHR 0x0D, CHR 0x20, CHR 0xA0]"
    by (simp only: a char_of_char)
next
  have b: "map of_char [CHR 0x09, CHR 0x0A, CHR 0x0B, CHR 0x0C, CHR 0x0D, CHR 0x20, CHR 0xA0]
             = [9, 10, 11, 12, 13, 32, 160 :: nat]"
    by code_simp
  assume "c \<in> set [CHR 0x09, CHR 0x0A, CHR 0x0B, CHR 0x0C, CHR 0x0D, CHR 0x20, CHR 0xA0]"
  then have "(of_char c :: nat) \<in> set (map of_char
      [CHR 0x09, CHR 0x0A, CHR 0x0B, CHR 0x0C, CHR 0x0D, CHR 0x20, CHR 0xA0])"
    by (simp only: set_map) (rule imageI)
  then show "es_espacio c"
    by (simp only: b) (simp add: es_espacio_def)
qed

lemma punto_coma_guion:
  "(c = CHR ''.'' \<or> c = CHR '','' \<or> c = CHR ''-'') = (c \<in> set ''.,-'')"
  "(c = CHR ''.'' \<or> c = CHR ''-'') = (c \<in> set ''.-'')"
  by auto

lemma contiene_no_numerico_spec: "contiene_no_numerico s = tiene_no_numerico_spec s"
  unfolding contiene_no_numerico_def tiene_no_numerico_spec_def list_ex_iff
    es_letra_iff es_digito_iff es_espacio_iff
  by auto

lemma limpiar_numero_spec: "limpiar_numero s = sin_separadores_spec s"
  unfolding limpiar_numero_def sin_separadores_spec_def es_digito_iff
  by (rule filter_cong) auto


lemma digitos_conj: "(set ds \<subseteq> set ''0123456789'') = list_all es_digito ds"
  unfolding list_all_iff es_digito_iff by blast

lemma no_digito_punto: "\<not> es_digito CHR ''.''" and no_digito_guion: "\<not> es_digito CHR ''-''"
  by code_simp+

lemma tomar_digitos:
  "list_all es_digito a \<Longrightarrow> takeWhile es_digito (a @ CHR ''.'' # b) = a
     \<and> dropWhile es_digito (a @ CHR ''.'' # b) = CHR ''.'' # b"
  by (simp add: list_all_iff takeWhile_tail no_digito_punto dropWhile_append3)

lemma tomar_todos:
  "list_all es_digito a \<Longrightarrow> takeWhile es_digito a = a \<and> dropWhile es_digito a = []"
  by (simp add: list_all_iff)

lemma cuerpo_valido:
  "(case dropWhile es_digito t of
      [] \<Rightarrow> takeWhile es_digito t \<noteq> []
    | c # b \<Rightarrow> c = CHR ''.'' \<and> list_all es_digito b \<and> (takeWhile es_digito t \<noteq> [] \<or> b \<noteq> []))
   = (\<exists>entera fraccion. list_all es_digito entera \<and> list_all es_digito fraccion
        \<and> (t = entera \<and> entera \<noteq> []
           \<or> t = entera @ ''.'' @ fraccion \<and> (entera \<noteq> [] \<or> fraccion \<noteq> [])))"
  (is "?L = ?R")
proof
  assume l: ?L
  have t: "t = takeWhile es_digito t @ dropWhile es_digito t"
    by simp
  have a: "list_all es_digito (takeWhile es_digito t)"
    by (simp add: list_all_iff) (meson set_takeWhileD)
  show ?R
  proof (cases "dropWhile es_digito t")
    case Nil
    with l t a show ?thesis
      by (intro exI [of _ "takeWhile es_digito t"] exI [of _ "[]"]) simp
  next
    case (Cons c b)
    with l have c: "c = CHR ''.''" and b: "list_all es_digito b"
      and ne: "takeWhile es_digito t \<noteq> [] \<or> b \<noteq> []"
      by simp_all
    from t Cons c have "t = takeWhile es_digito t @ ''.'' @ b"
      by simp
    with a b ne show ?thesis
      by (intro exI [of _ "takeWhile es_digito t"] exI [of _ b]) simp
  qed
next
  assume ?R
  then obtain entera fraccion where e: "list_all es_digito entera"
    and f: "list_all es_digito fraccion"
    and d: "t = entera \<and> entera \<noteq> []
           \<or> t = entera @ ''.'' @ fraccion \<and> (entera \<noteq> [] \<or> fraccion \<noteq> [])"
    by blast
  from d show ?L
  proof
    assume "t = entera \<and> entera \<noteq> []"
    then have te: "t = entera" and ne: "entera \<noteq> []"
      by simp_all
    from tomar_todos [OF e] have tw: "takeWhile es_digito entera = entera"
      and dw: "dropWhile es_digito entera = []"
      by blast+
    from ne show ?L
      unfolding te tw dw by simp
  next
    assume "t = entera @ ''.'' @ fraccion \<and> (entera \<noteq> [] \<or> fraccion \<noteq> [])"
    then have te: "t = entera @ CHR ''.'' # fraccion" and ne: "entera \<noteq> [] \<or> fraccion \<noteq> []"
      by simp_all
    from tomar_digitos [OF e, of fraccion]
    have tw: "takeWhile es_digito (entera @ CHR ''.'' # fraccion) = entera"
      and dw: "dropWhile es_digito (entera @ CHR ''.'' # fraccion) = CHR ''.'' # fraccion"
      by blast+
    from f ne show ?L
      unfolding te tw dw by simp
  qed
qed

lemma Number_no_NaN_spec: "Number_no_NaN t = numero_spec t"
proof -
  define cuerpo where "cuerpo = (\<lambda>u.
     case dropWhile es_digito u of
       [] \<Rightarrow> takeWhile es_digito u \<noteq> []
     | c # b \<Rightarrow> c = CHR ''.'' \<and> list_all es_digito b \<and> (takeWhile es_digito u \<noteq> [] \<or> b \<noteq> []))"
  have alt: "Number_no_NaN t =
      (t = [] \<or> cuerpo (case t of [] \<Rightarrow> [] | c # r \<Rightarrow> if c = CHR ''-'' then r else c # r))"
    unfolding Number_no_NaN_def Let_def cuerpo_def ..
  have cv: "cuerpo u = (\<exists>entera fraccion. list_all es_digito entera \<and> list_all es_digito fraccion
        \<and> (u = entera \<and> entera \<noteq> []
           \<or> u = entera @ ''.'' @ fraccion \<and> (entera \<noteq> [] \<or> fraccion \<noteq> [])))" for u
    unfolding cuerpo_def by (rule cuerpo_valido)
  have sp: "numero_spec u =
      (u = [] \<or> (\<exists>signo entera fraccion. (signo = [] \<or> signo = ''-'')
         \<and> list_all es_digito entera \<and> list_all es_digito fraccion
         \<and> (u = signo @ entera \<and> entera \<noteq> []
            \<or> u = signo @ entera @ ''.'' @ fraccion \<and> (entera \<noteq> [] \<or> fraccion \<noteq> []))))" for u
    unfolding numero_spec_def digitos_conj ..
  show ?thesis
  proof (cases t)
    case Nil
    then show ?thesis unfolding alt sp by simp
  next
    case (Cons c r)
    show ?thesis
    proof (cases "c = CHR ''-''")
      case True
      from alt have n: "Number_no_NaN t = cuerpo r"
        by (simp add: Cons True)
      show ?thesis
      proof
        assume "Number_no_NaN t"
        with n cv [of r] obtain entera fraccion where "list_all es_digito entera"
          "list_all es_digito fraccion"
          "r = entera \<and> entera \<noteq> []
             \<or> r = entera @ ''.'' @ fraccion \<and> (entera \<noteq> [] \<or> fraccion \<noteq> [])"
          by blast
        then show "numero_spec t"
          unfolding Cons True sp
          by (intro disjI2 exI [of _ "''-''"] exI [of _ entera] exI [of _ fraccion]) auto
      next
        assume "numero_spec t"
        with Cons obtain signo entera fraccion where s: "signo = [] \<or> signo = ''-''"
          and e: "list_all es_digito entera" and f: "list_all es_digito fraccion"
          and d: "t = signo @ entera \<and> entera \<noteq> []
              \<or> t = signo @ entera @ ''.'' @ fraccion \<and> (entera \<noteq> [] \<or> fraccion \<noteq> [])"
          unfolding sp by blast
        have "signo = ''-''"
        proof (rule ccontr)
          assume "signo \<noteq> ''-''"
          with s have sv: "signo = []" by simp
          from d e show False
            unfolding sv Cons True
            by (cases entera) (auto simp: no_digito_guion)
        qed
        with d have "r = entera \<and> entera \<noteq> []
             \<or> r = entera @ ''.'' @ fraccion \<and> (entera \<noteq> [] \<or> fraccion \<noteq> [])"
          unfolding Cons True by auto
        with e f have "cuerpo r"
          unfolding cv by blast
        with n show "Number_no_NaN t" by simp
      qed
    next
      case False
      from alt have n: "Number_no_NaN t = cuerpo t"
        by (simp add: Cons False)
      show ?thesis
      proof
        assume "Number_no_NaN t"
        with n cv [of t] obtain entera fraccion where "list_all es_digito entera"
          "list_all es_digito fraccion"
          "t = entera \<and> entera \<noteq> []
             \<or> t = entera @ ''.'' @ fraccion \<and> (entera \<noteq> [] \<or> fraccion \<noteq> [])"
          by blast
        then show "numero_spec t"
          unfolding sp
          by (intro disjI2 exI [of _ "[]"] exI [of _ entera] exI [of _ fraccion]) auto
      next
        assume "numero_spec t"
        with Cons obtain signo entera fraccion where s: "signo = [] \<or> signo = ''-''"
          and e: "list_all es_digito entera" and f: "list_all es_digito fraccion"
          and d: "t = signo @ entera \<and> entera \<noteq> []
              \<or> t = signo @ entera @ ''.'' @ fraccion \<and> (entera \<noteq> [] \<or> fraccion \<noteq> [])"
          unfolding sp by blast
        have "signo = []"
        proof (rule ccontr)
          assume "signo \<noteq> []"
          with s have "signo = ''-''" by simp
          with d Cons False show False by auto
        qed
        with d have "t = entera \<and> entera \<noteq> []
             \<or> t = entera @ ''.'' @ fraccion \<and> (entera \<noteq> [] \<or> fraccion \<noteq> [])"
          by auto
        with e f have "cuerpo t"
          unfolding cv by blast
        with n show "Number_no_NaN t" by simp
      qed
    qed
  qed
qed


lemma set_fold_Set_add: "set (fold Set_add ks acc) = set ks \<union> set acc"
  by (induction ks arbitrary: acc) (auto simp: Set_add_def)

lemma set_todasLasColumnas:
  "set (todasLasColumnas datos) = (\<Union>r \<in> set datos. fst ` set r)"
proof -
  have "set (fold (\<lambda>registro ks. fold Set_add (Object_keys registro) ks) datos acc)
          = (\<Union>r \<in> set datos. fst ` set r) \<union> set acc" for acc
    by (induction datos arbitrary: acc) (auto simp: set_fold_Set_add Object_keys_def)
  then show ?thesis
    by (simp add: todasLasColumnas_def)
qed

lemma find_columna:
  "col \<in> set cols \<Longrightarrow>
   find (\<lambda>c. nombre c = col)
        (map (\<lambda>columna. \<lparr>nombre = columna, tipo = T columna, esNullable = True\<rparr>) cols)
     = Some \<lparr>nombre = col, tipo = T col, esNullable = True\<rparr>"
  by (induction cols) auto

text \<open>
  C3. Every key of a record is a column of the result. For a column whose first value
  that is neither \<open>null\<close> nor \<open>undefined\<close> is a string: if a value contains a letter or a
  character outside \<open>[0-9.,\-\s]\<close> the column is \<open>text\<close>; otherwise, if every value is a
  string that is a number once everything but digits, points and minus signs is
  stripped, the column is \<open>decimal\<close> when a value contains a point and \<open>int\<close> when none
  does; if a value is not such a number (a value that is not a string never is), the
  column is \<open>text\<close>. So of the columns with the values \<open>5, 7, abc\<close>, \<open>null, 100, 200.50\<close>,
  \<open>1,000, 7, 5\<close> and \<open>1-2, 3\<close> the first is \<open>text\<close>, the second \<open>decimal\<close>, the third
  \<open>int\<close> and the last \<open>text\<close>.
\<close>

theorem tipo_columna_texto:
  assumes "r0 \<in> set datos" and "col \<in> fst ` set r0"
    and "filter (\<lambda>v. v \<noteq> JNull \<and> v \<noteq> JUndefined) (map (\<lambda>r. obtener r col) datos)
           = JStr s0 # resto"
  shows "find (\<lambda>c. nombre c = col) (analizarEstructuraColumnas datos) =
     Some \<lparr>nombre = col,
           tipo =
             (if \<exists>v \<in> set (JStr s0 # resto). \<exists>s. v = JStr s \<and> tiene_no_numerico_spec s
              then ''text''
              else if \<forall>v \<in> set (JStr s0 # resto).
                        \<exists>s. v = JStr s \<and> numero_spec (sin_separadores_spec s)
              then (if \<exists>v \<in> set (JStr s0 # resto). \<exists>s. v = JStr s \<and> CHR ''.'' \<in> set s
                    then ''decimal'' else ''int'')
              else ''text''),
           esNullable = True\<rparr>"
proof -
  from assms(1) have ne: "datos \<noteq> []"
    by auto
  from assms(1,2) have c: "col \<in> set (todasLasColumnas datos)"
    unfolding set_todasLasColumnas by blast
  have v: "valoresNoNulos datos col = JStr s0 # resto"
    unfolding valoresNoNulos_def by (rule assms(3))
  have p: "(CHR ''.'' \<in> set (sin_separadores_spec s)) = (CHR ''.'' \<in> set s)" for s
    by (auto simp: sin_separadores_spec_def)
  have "find (\<lambda>c. nombre c = col) (analizarEstructuraColumnas datos) =
     Some \<lparr>nombre = col, tipo = inferir_tipo (valoresNoNulos datos col), esNullable = True\<rparr>"
    using ne find_columna [OF c] by (simp add: analizarEstructuraColumnas_def)
  then show ?thesis
    unfolding v inferir_tipo_string contiene_no_numerico_spec limpiar_numero_spec
      Number_no_NaN_spec p .
qed

theorem tipo_columna_texto_witness:
  "map (\<lambda>col. find (\<lambda>c. nombre c = col)
          (analizarEstructuraColumnas
             [[(''cantidad'', JStr ''5''), (''monto'', JNull), (''unidades'', JStr ''1,000''),
               (''rango'', JStr ''1-2'')],
              [(''cantidad'', JStr ''7''), (''monto'', JStr ''100''), (''unidades'', JStr '' 7 ''),
               (''rango'', JStr ''3'')],
              [(''cantidad'', JStr ''abc''), (''monto'', JStr ''200.50''),
               (''unidades'', JStr ''5'')]]))
       [''cantidad'', ''monto'', ''unidades'', ''rango'']
   = [Some \<lparr>nombre = ''cantidad'', tipo = ''text'', esNullable = True\<rparr>,
      Some \<lparr>nombre = ''monto'', tipo = ''decimal'', esNullable = True\<rparr>,
      Some \<lparr>nombre = ''unidades'', tipo = ''int'', esNullable = True\<rparr>,
      Some \<lparr>nombre = ''rango'', tipo = ''text'', esNullable = True\<rparr>]"
proof -
  let ?r0 = "[(''cantidad'', JStr ''5''), (''monto'', JNull), (''unidades'', JStr ''1,000''),
               (''rango'', JStr ''1-2'')]"
  let ?datos = "[?r0,
              [(''cantidad'', JStr ''7''), (''monto'', JStr ''100''), (''unidades'', JStr '' 7 ''),
               (''rango'', JStr ''3'')],
              [(''cantidad'', JStr ''abc''), (''monto'', JStr ''200.50''),
               (''unidades'', JStr ''5'')]]"
  have r: "?r0 \<in> set ?datos"
    by simp
  have k: "''cantidad'' \<in> fst ` set ?r0" "''monto'' \<in> fst ` set ?r0"
    "''unidades'' \<in> fst ` set ?r0" "''rango'' \<in> fst ` set ?r0"
    by simp_all
  have v1: "filter (\<lambda>v. v \<noteq> JNull \<and> v \<noteq> JUndefined) (map (\<lambda>r. obtener r ''cantidad'') ?datos)
      = JStr ''5'' # [JStr ''7'', JStr ''abc'']"
    and v2: "filter (\<lambda>v. v \<noteq> JNull \<and> v \<noteq> JUndefined) (map (\<lambda>r. obtener r ''monto'') ?datos)
      = JStr ''100'' # [JStr ''200.50'']"
    and v3: "filter (\<lambda>v. v \<noteq> JNull \<and> v \<noteq> JUndefined) (map (\<lambda>r. obtener r ''unidades'') ?datos)
      = JStr ''1,000'' # [JStr '' 7 '', JStr ''5'']"
    and v4: "filter (\<lambda>v. v \<noteq> JNull \<and> v \<noteq> JUndefined) (map (\<lambda>r. obtener r ''rango'') ?datos)
      = JStr ''1-2'' # [JStr ''3'']"
    by code_simp+
  have "map contiene_no_numerico
          [''5'', ''7'', ''abc'', ''100'', ''200.50'', ''1,000'', '' 7 '', ''1-2'', ''3'']
      = [False, False, True, False, False, False, False, False, False]"
    by code_simp
  then have a: "\<not> tiene_no_numerico_spec ''5''" "\<not> tiene_no_numerico_spec ''7''"
    "tiene_no_numerico_spec ''abc''" "\<not> tiene_no_numerico_spec ''100''"
    "\<not> tiene_no_numerico_spec ''200.50''" "\<not> tiene_no_numerico_spec ''1,000''"
    "\<not> tiene_no_numerico_spec '' 7 ''" "\<not> tiene_no_numerico_spec ''1-2''"
    "\<not> tiene_no_numerico_spec ''3''"
    unfolding contiene_no_numerico_spec by simp_all
  have "map (\<lambda>s. Number_no_NaN (limpiar_numero s))
          [''100'', ''200.50'', ''1,000'', '' 7 '', ''5'', ''1-2'', ''3'']
      = [True, True, True, True, True, False, True]"
    by code_simp
  then have b: "numero_spec (sin_separadores_spec ''100'')"
    "numero_spec (sin_separadores_spec ''200.50'')"
    "numero_spec (sin_separadores_spec ''1,000'')"
    "numero_spec (sin_separadores_spec '' 7 '')"
    "numero_spec (sin_separadores_spec ''5'')"
    "\<not> numero_spec (sin_separadores_spec ''1-2'')"
    "numero_spec (sin_separadores_spec ''3'')"
    unfolding Number_no_NaN_spec limpiar_numero_spec by simp_all
  from tipo_columna_texto [OF r k(1) v1] a
  have t1: "find (\<lambda>c. nombre c = ''cantidad'') (analizarEstructuraColumnas ?datos)
      = Some \<lparr>nombre = ''cantidad'', tipo = ''text'', esNullable = True\<rparr>"
    by simp
  from tipo_columna_texto [OF r k(2) v2] a b
  have t2: "find (\<lambda>c. nombre c = ''monto'') (analizarEstructuraColumnas ?datos)
      = Some \<lparr>nombre = ''monto'', tipo = ''decimal'', esNullable = True\<rparr>"
    by simp
  from tipo_columna_texto [OF r k(3) v3] a b
  have t3: "find (\<lambda>c. nombre c = ''unidades'') (analizarEstructuraColumnas ?datos)
      = Some \<lparr>nombre = ''unidades'', tipo = ''int'', esNullable = True\<rparr>"
    by simp
  from tipo_columna_texto [OF r k(4) v4] a b
  have t4: "find (\<lambda>c. nombre c = ''rango'') (analizarEstructuraColumnas ?datos)
      = Some \<lparr>nombre = ''rango'', tipo = ''text'', esNullable = True\<rparr>"
    by simp
  from t1 t2 t3 t4 show ?thesis
    by (simp only: list.map)
qed

section \<open>Properties of the sanitiser\<close>

lemma Math_round_idem: "Math_round (Math_round n) = Math_round n"
proof (cases n)
  case (Fin q)
  have "\<lfloor>(of_int \<lfloor>q + 1 / 2\<rfloor> :: rat) + 1 / 2\<rfloor> = \<lfloor>q + 1 / 2\<rfloor>"
    by linarith
  with Fin show ?thesis by simp
qed simp_all

lemma sanitizar_idempotente:
  "sanitizarValorSegunTipo en (sanitizarValorSegunTipo en v t) t = sanitizarValorSegunTipo en v t"
  unfolding sanitizarValorSegunTipo_def sanitizar_date_def sanitizar_int_def
    sanitizar_decimal_def sanitizar_boolean_def sanitizar_default_def
  by (cases v) (auto simp: Let_def Math_round_idem split: option.splits)

text \<open>
  C4. For every type tag (\<open>int\<close>, \<open>decimal\<close>, \<open>text\<close>, \<open>boolean\<close>, \<open>date\<close> and any
  other) and every value whose sanitised form is not \<open>null\<close>, sanitising the sanitised
  form again gives the same value. The runtime is arbitrary; two \<open>NaN\<close> compare as the
  same value.
\<close>

theorem sanitizar_round_trip:
  "sanitizarValorSegunTipo en v t \<noteq> JNull \<Longrightarrow>
   sanitizarValorSegunTipo en (sanitizarValorSegunTipo en v t) t = sanitizarValorSegunTipo en v t"
  by (rule sanitizar_idempotente)


theorem sanitizar_round_trip_witness:
  "sanitizarValorSegunTipo entorno_ejemplo (JStr ''-7.5'') ''int'' = JNum (Fin (- 7))
   \<and> sanitizarValorSegunTipo entorno_ejemplo (JNum (Fin (- 7))) ''int'' = JNum (Fin (- 7))"
proof -
  have a: "sanitizarValorSegunTipo entorno_ejemplo (JStr ''-7.5'') ''int'' = JNum (Fin (- 7))"
    by code_simp
  then have "sanitizarValorSegunTipo entorno_ejemplo (JStr ''-7.5'') ''int'' \<noteq> JNull"
    by simp
  from sanitizar_round_trip [OF this] a show ?thesis by simp
qed

text \<open>
  C5. For the type \<open>boolean\<close> a string is lower-cased and looked up in the truthy words
  \<open>true, yes, si, s, y, 1\<close> (giving \<open>true\<close>) and then in the falsy words
  \<open>false, no, n, 0\<close> (giving \<open>false\<close>), any other string giving \<open>null\<close>; a number
  gives \<open>false\<close> exactly when it is zero; a truth value is returned as it is.
\<close>

theorem sanitizar_boolean_casos:
  "sanitizarValorSegunTipo en (JStr s) ''boolean'' =
     (if toLowerCase s \<in> set [''true'', ''yes'', ''si'', ''s'', ''y'', ''1''] then JBool True
      else if toLowerCase s \<in> set [''false'', ''no'', ''n'', ''0''] then JBool False
      else JNull)
   \<and> sanitizarValorSegunTipo en (JNum n) ''boolean'' = JBool (n \<noteq> Fin 0)
   \<and> sanitizarValorSegunTipo en (JBool b) ''boolean'' = JBool b"
  by (auto simp: sanitizarValorSegunTipo_def sanitizar_boolean_def verdaderos_def falsos_def
      distinto_def Let_def)

theorem sanitizar_boolean_casos_witness:
  "sanitizarValorSegunTipo entorno_ejemplo (JStr ''SI'') ''boolean'' = JBool True
   \<and> sanitizarValorSegunTipo entorno_ejemplo (JStr ''No'') ''boolean'' = JBool False
   \<and> sanitizarValorSegunTipo entorno_ejemplo (JStr ''quizas'') ''boolean'' = JNull
   \<and> sanitizarValorSegunTipo entorno_ejemplo (JNum (Fin 0)) ''boolean'' = JBool False
   \<and> sanitizarValorSegunTipo entorno_ejemplo (JNum (Fin 3)) ''boolean'' = JBool True"
proof -
  have "toLowerCase ''SI'' = ''si''" "toLowerCase ''No'' = ''no''"
    "toLowerCase ''quizas'' = ''quizas''"
    by code_simp+
  then show ?thesis
    using sanitizar_boolean_casos [of entorno_ejemplo "''SI''" "Fin 0" True]
      sanitizar_boolean_casos [of entorno_ejemplo "''No''" "Fin 3" True]
      sanitizar_boolean_casos [of entorno_ejemplo "''quizas''" "Fin 3" True]
    by simp
qed


section \<open>Properties of the batch load\<close>

lemma linea_insertarLote:
  "insertarLote en qr t cols lote s = (s', linea) \<Longrightarrow>
   linea = [] \<or> (\<exists>p f. linea = [LoteProcesado p f])"
  by (auto simp: insertarLote_def split: if_splits prod.splits)

lemma insertar_lotes_regla [consumes 0, case_names vacio inicio completada revertir perdido]:
  assumes vacio: "\<And>c. Q [] c c"
    and inicio: "\<And>pend c e s1. pend \<noteq> [] \<Longrightarrow> startTransaction qr (estado c) = (Some e, s1) \<Longrightarrow>
        Q pend c (c\<lparr>estado := s1, lanzada := Some (Error e)\<rparr>)"
    and completada: "\<And>pend c s1 s2 linea s3 r. pend \<noteq> [] \<Longrightarrow>
        startTransaction qr (estado c) = (None, s1) \<Longrightarrow>
        insertarLote en qr t cols (take tamanoLote pend) s1 = (s2, linea) \<Longrightarrow>
        commitTransaction qr s2 = (None, s3) \<Longrightarrow>
        Q (drop tamanoLote pend)
          (c\<lparr>estado := s3,
             totalRecords := totalRecords c + length (take tamanoLote pend),
             bitacora := bitacora c @ linea @
               [TransaccionCompletada (length (take tamanoLote pend))
                  (totalRecords c + length (take tamanoLote pend))]\<rparr>) r \<Longrightarrow>
        Q pend c r"
    and revertir: "\<And>pend c s1 s2 linea e s3 e' s4. pend \<noteq> [] \<Longrightarrow>
        startTransaction qr (estado c) = (None, s1) \<Longrightarrow>
        insertarLote en qr t cols (take tamanoLote pend) s1 = (s2, linea) \<Longrightarrow>
        commitTransaction qr s2 = (Some e, s3) \<Longrightarrow>
        rollbackTransaction qr s3 = (Some e', s4) \<Longrightarrow>
        Q pend c (c\<lparr>estado := s4, bitacora := bitacora c @ linea, lanzada := Some (Error e')\<rparr>)"
    and perdido: "\<And>pend c s1 s2 linea e s3 s4 r. pend \<noteq> [] \<Longrightarrow>
        startTransaction qr (estado c) = (None, s1) \<Longrightarrow>
        insertarLote en qr t cols (take tamanoLote pend) s1 = (s2, linea) \<Longrightarrow>
        commitTransaction qr s2 = (Some e, s3) \<Longrightarrow>
        rollbackTransaction qr s3 = (None, s4) \<Longrightarrow>
        Q (drop tamanoLote pend)
          (c\<lparr>estado := s4,
             bitacora := bitacora c @ linea @ [LotePerdido (length (take tamanoLote pend))]\<rparr>) r \<Longrightarrow>
        Q pend c r"
  shows "Q pend c (insertar_lotes en qr t cols pend c)"
proof (induction "length pend" arbitrary: pend c rule: less_induct)
  case less
  show ?case
  proof (cases "pend = []")
    case True
    then show ?thesis
      by (subst insertar_lotes.simps) (simp add: vacio)
  next
    case False
    then have menor: "length (drop tamanoLote pend) < length pend"
      by (simp add: tamanoLote_def)
    obtain a s1 where st: "startTransaction qr (estado c) = (a, s1)"
      by (cases "startTransaction qr (estado c)")
    obtain s2 linea where lo: "insertarLote en qr t cols (take tamanoLote pend) s1 = (s2, linea)"
      by (cases "insertarLote en qr t cols (take tamanoLote pend) s1")
    obtain b s3 where co: "commitTransaction qr s2 = (b, s3)"
      by (cases "commitTransaction qr s2")
    obtain d s4 where ro: "rollbackTransaction qr s3 = (d, s4)"
      by (cases "rollbackTransaction qr s3")
    show ?thesis
    proof (cases a)
      case (Some e)
      with False st inicio [of pend c e s1] show ?thesis
        by (subst insertar_lotes.simps) (simp add: Let_def)
    next
      case None
      note a = None
      show ?thesis
      proof (cases b)
        case None
        from completada [OF False st [unfolded a] lo co [unfolded None] less [OF menor]]
        show ?thesis
          by (subst insertar_lotes.simps) (simp add: Let_def False st a lo co None)
      next
        case (Some e)
        note b = Some
        show ?thesis
        proof (cases d)
          case None
          from perdido [OF False st [unfolded a] lo co [unfolded b] ro [unfolded None] less [OF menor]]
          show ?thesis
            by (subst insertar_lotes.simps) (simp add: Let_def False st a lo co b ro None)
        next
          case (Some e')
          from revertir [OF False st [unfolded a] lo co [unfolded b] ro [unfolded Some]]
          show ?thesis
            by (subst insertar_lotes.simps) (simp add: Let_def False st a lo co b ro Some)
        qed
      qed
    qed
  qed
qed

lemma total_suma:
  "totalRecords c = sum_list (map completados (bitacora c)) \<longrightarrow>
   totalRecords (insertar_lotes en qr t cols pend c)
     = sum_list (map completados (bitacora (insertar_lotes en qr t cols pend c)))"
  by (rule insertar_lotes_regla [where Q = "\<lambda>pend c r. totalRecords c = sum_list (map completados (bitacora c)) \<longrightarrow>
       totalRecords r = sum_list (map completados (bitacora r))"])
    (auto dest!: linea_insertarLote)


lemma completadas_positivas:
  "(\<forall>e \<in> set (bitacora c). es_completada e \<longrightarrow> 0 < completados e) \<longrightarrow>
   (\<forall>e \<in> set (bitacora (insertar_lotes en qr t cols pend c)).
      es_completada e \<longrightarrow> 0 < completados e)"
  by (rule insertar_lotes_regla [where Q = "\<lambda>pend c r.
        (\<forall>e \<in> set (bitacora c). es_completada e \<longrightarrow> 0 < completados e) \<longrightarrow>
        (\<forall>e \<in> set (bitacora r). es_completada e \<longrightarrow> 0 < completados e)"])
    (auto simp: tamanoLote_def dest!: linea_insertarLote)

lemma lotes_cerrados_append:
  "lotes_cerrados (b @ b') = lotes_cerrados b + lotes_cerrados b'"
  by (simp add: lotes_cerrados_def)

lemma resto_lotes:
  "pend \<noteq> [] \<Longrightarrow>
   Suc ((length (drop tamanoLote pend) + tamanoLote - 1) div tamanoLote)
     = (length pend + tamanoLote - 1) div tamanoLote"
proof -
  assume "pend \<noteq> []"
  then have p: "Suc 0 \<le> length pend" by (cases pend) simp_all
  show ?thesis
  proof (cases "length pend \<le> 100")
    case True
    with p have "(length pend + 99) div 100 = 1"
      by (intro div_nat_eqI) simp_all
    with True show ?thesis
      by (simp add: tamanoLote_def)
  next
    case False
    then have "length pend + 99 = (length pend - 100 + 99) + 100"
      by simp
    then have "(length pend + 99) div 100 = Suc ((length pend - 100 + 99) div 100)"
      by (simp only: div_add_self2)
    then show ?thesis
      by (simp add: tamanoLote_def ac_simps)
  qed
qed

lemma cuenta_lotes:
  "lanzada c = None \<longrightarrow> lanzada (insertar_lotes en qr t cols pend c) = None \<longrightarrow>
   lotes_cerrados (bitacora (insertar_lotes en qr t cols pend c))
     = lotes_cerrados (bitacora c) + (length pend + tamanoLote - 1) div tamanoLote"
proof (rule insertar_lotes_regla [where Q = "\<lambda>pend c r.
        lanzada c = None \<longrightarrow> lanzada r = None \<longrightarrow>
        lotes_cerrados (bitacora r)
          = lotes_cerrados (bitacora c) + (length pend + tamanoLote - 1) div tamanoLote"],
    goal_cases)
  case (1 c)
  show ?case by (simp add: tamanoLote_def)
next
  case (2 pend c e s1)
  show ?case by simp
next
  case (3 pend c s1 s2 linea s3 r)
  from 3(3) have "lotes_cerrados linea = 0"
    by (auto simp: lotes_cerrados_def dest!: linea_insertarLote)
  with 3(5) resto_lotes [OF 3(1)] show ?case
    by (auto simp: lotes_cerrados_append) (simp add: lotes_cerrados_def)
next
  case (4 pend c s1 s2 linea e s3 e' s4)
  show ?case by simp
next
  case (5 pend c s1 s2 linea e s3 s4 r)
  from 5(3) have "lotes_cerrados linea = 0"
    by (auto simp: lotes_cerrados_def dest!: linea_insertarLote)
  with 5(6) resto_lotes [OF 5(1)] show ?case
    by (auto simp: lotes_cerrados_append) (simp add: lotes_cerrados_def)
qed

lemma sin_fallos:
  assumes "\<forall>s. fst (startTransaction qr s) = None \<and> fst (commitTransaction qr s) = None"
  shows "totalRecords (insertar_lotes en qr t cols pend c) = totalRecords c + length pend
    \<and> lanzada (insertar_lotes en qr t cols pend c) = lanzada c"
proof (rule insertar_lotes_regla [where Q = "\<lambda>pend c r.
        totalRecords r = totalRecords c + length pend \<and> lanzada r = lanzada c"], goal_cases)
  case (1 c)
  show ?case by simp
next
  case (2 pend c e s1)
  with assms have False by (metis fst_conv option.distinct(1))
  then show ?case ..
next
  case (3 pend c s1 s2 linea s3 r)
  then show ?case by auto
next
  case (4 pend c s1 s2 linea e s3 e' s4)
  with assms have False by (metis fst_conv option.distinct(1))
  then show ?case ..
next
  case (5 pend c s1 s2 linea e s3 s4 r)
  with assms have False by (metis fst_conv option.distinct(1))
  then show ?case ..
qed

lemma suma_cero:
  "(\<forall>e \<in> set b. es_completada e \<longrightarrow> 0 < completados e) \<Longrightarrow>
   sum_list (map completados b) = 0 \<Longrightarrow> filter es_completada b = []"
  by (induction b) auto

text \<open>
  C10. The loader counts by batch, not by record. After a load the counter of inserted
  records is the sum of the sizes of the batches whose transaction was committed. The
  error for zero inserted records is raised only when no batch was committed and every
  batch was rolled back. Whatever becomes of the single \<open>INSERT\<close> statements, records
  skipped or refused included, when every transaction starts and commits the counter is
  the number of input records and nothing is raised.
\<close>

theorem contabilidad_por_lote:
  "totalRecords (insertarDatosEnTabla en qr t cols datos s)
     = sum_list (map completados (bitacora (insertarDatosEnTabla en qr t cols datos s)))
   \<and> (lanzada (insertarDatosEnTabla en qr t cols datos s)
         = Some (InternalServerErrorException NingunRegistroInsertado) \<longrightarrow>
       datos \<noteq> []
       \<and> \<not> list_ex es_completada (bitacora (insertarDatosEnTabla en qr t cols datos s))
       \<and> length (filter es_perdido (bitacora (insertarDatosEnTabla en qr t cols datos s)))
           = (length datos + tamanoLote - 1) div tamanoLote)
   \<and> ((\<forall>s. fst (startTransaction qr s) = None \<and> fst (commitTransaction qr s) = None) \<longrightarrow>
       datos \<noteq> [] \<longrightarrow>
       totalRecords (insertarDatosEnTabla en qr t cols datos s) = length datos
       \<and> lanzada (insertarDatosEnTabla en qr t cols datos s) = None)"
proof (cases "datos = []")
  case True
  then show ?thesis by (simp add: insertarDatosEnTabla_def)
next
  case False
  let ?ini = "\<lparr>estado = s, totalRecords = 0, bitacora = [], lanzada = None\<rparr>"
  let ?c = "insertar_lotes en qr t (corregir_columnas cols datos) datos ?ini"
  let ?r = "insertarDatosEnTabla en qr t cols datos s"
  have r: "?r = (if lanzada ?c \<noteq> None then ?c
            else if totalRecords ?c = 0
            then ?c\<lparr>lanzada := Some (InternalServerErrorException NingunRegistroInsertado)\<rparr>
            else if totalRecords ?c < length datos
            then ?c\<lparr>bitacora := bitacora ?c @ [InsercionParcial (totalRecords ?c) (length datos)]\<rparr>
            else ?c)"
    using False by (simp add: insertarDatosEnTabla_def Let_def)
  have suma: "totalRecords ?c = sum_list (map completados (bitacora ?c))"
    using total_suma [where c = ?ini and pend = datos] by simp
  have pos: "\<forall>e \<in> set (bitacora ?c). es_completada e \<longrightarrow> 0 < completados e"
    using completadas_positivas [where c = ?ini and pend = datos] by simp
  have cuenta: "lanzada ?c = None \<longrightarrow>
      lotes_cerrados (bitacora ?c) = (length datos + tamanoLote - 1) div tamanoLote"
    using cuenta_lotes [where c = ?ini and pend = datos]
    by (simp add: lotes_cerrados_def)
  have a: "totalRecords ?r = sum_list (map completados (bitacora ?r))"
    unfolding r using suma by simp
  have b: "datos \<noteq> [] \<and> \<not> list_ex es_completada (bitacora ?r)
       \<and> length (filter es_perdido (bitacora ?r)) = (length datos + tamanoLote - 1) div tamanoLote"
    if h: "lanzada ?r = Some (InternalServerErrorException NingunRegistroInsertado)"
  proof -
    have "lanzada ?c \<noteq> Some (InternalServerErrorException NingunRegistroInsertado)"
      by (rule insertar_lotes_regla [where Q = "\<lambda>pend c r.
            lanzada c \<noteq> Some (InternalServerErrorException NingunRegistroInsertado) \<longrightarrow>
            lanzada r \<noteq> Some (InternalServerErrorException NingunRegistroInsertado)",
            THEN mp]) auto
    with h have n: "lanzada ?c = None" and z: "totalRecords ?c = 0" and rc: "bitacora ?r = bitacora ?c"
      unfolding r by (auto split: if_splits)
    from suma z pos have f: "filter es_completada (bitacora ?c) = []"
      using suma_cero by simp
    then have "\<not> list_ex es_completada (bitacora ?c)"
      by (simp add: list_ex_iff filter_empty_conv)
    moreover from cuenta n f have "length (filter es_perdido (bitacora ?c))
        = (length datos + tamanoLote - 1) div tamanoLote"
      by (simp add: lotes_cerrados_def)
    ultimately show ?thesis using False rc by simp
  qed
  have c: "totalRecords ?r = length datos \<and> lanzada ?r = None"
    if h: "\<forall>s. fst (startTransaction qr s) = None \<and> fst (commitTransaction qr s) = None"
    using sin_fallos [OF h, where c = ?ini and pend = datos] False
    unfolding r by simp
  have b': "lanzada ?r = Some (InternalServerErrorException NingunRegistroInsertado) \<longrightarrow>
       datos \<noteq> [] \<and> \<not> list_ex es_completada (bitacora ?r)
       \<and> length (filter es_perdido (bitacora ?r)) = (length datos + tamanoLote - 1) div tamanoLote"
    by (intro impI) (rule b)
  have c': "(\<forall>s. fst (startTransaction qr s) = None \<and> fst (commitTransaction qr s) = None) \<longrightarrow>
       datos \<noteq> [] \<longrightarrow> totalRecords ?r = length datos \<and> lanzada ?r = None"
    by (intro impI) (rule c)
  show ?thesis
    by (rule conjI [OF a conjI [OF b' c']])
qed


theorem contabilidad_por_lote_witness:
  "totalRecords (insertarDatosEnTabla entorno_ejemplo (bd_simple desborda) ''compras''
       [\<lparr>nombre = ''cantidad'', tipo = ''int'', esNullable = True\<rparr>]
       [[(''cantidad'', JNum (Fin 5))], [(''cantidad'', JNum (Fin (10 ^ 30)))], [(''cantidad'', JNull)]]
       \<lparr>confirmadas = [], abiertas = []\<rparr>) = 3
   \<and> confirmadas (estado (insertarDatosEnTabla entorno_ejemplo (bd_simple desborda) ''compras''
       [\<lparr>nombre = ''cantidad'', tipo = ''int'', esNullable = True\<rparr>]
       [[(''cantidad'', JNum (Fin 5))], [(''cantidad'', JNum (Fin (10 ^ 30)))], [(''cantidad'', JNull)]]
       \<lparr>confirmadas = [], abiertas = []\<rparr>))
      = [InsertInto ''compras'' [''cantidad''] [JNum (Fin 5)]]
   \<and> lanzada (insertarDatosEnTabla entorno_ejemplo bd_caida ''compras''
       [\<lparr>nombre = ''cantidad'', tipo = ''int'', esNullable = True\<rparr>]
       [[(''cantidad'', JNum (Fin 5))]]
       \<lparr>confirmadas = [], abiertas = []\<rparr>)
      = Some (InternalServerErrorException NingunRegistroInsertado)
   \<and> \<not> list_ex es_completada (bitacora (insertarDatosEnTabla entorno_ejemplo bd_caida ''compras''
       [\<lparr>nombre = ''cantidad'', tipo = ''int'', esNullable = True\<rparr>]
       [[(''cantidad'', JNum (Fin 5))]]
       \<lparr>confirmadas = [], abiertas = []\<rparr>))"
proof -
  let ?cols = "[\<lparr>nombre = ''cantidad'', tipo = ''int'', esNullable = True\<rparr>]"
  let ?datos = "[[(''cantidad'', JNum (Fin 5))], [(''cantidad'', JNum (Fin (10 ^ 30)))],
                 [(''cantidad'', JNull)]]"
  let ?uno = "[[(''cantidad'', JNum (Fin 5))]]"
  let ?s = "\<lparr>confirmadas = [], abiertas = []\<rparr>"
  have h: "\<forall>s. fst (startTransaction (bd_simple desborda) s) = None
             \<and> fst (commitTransaction (bd_simple desborda) s) = None"
    by (simp add: bd_simple_def)
  have ne: "?datos \<noteq> []"
    by simp
  have a: "totalRecords (insertarDatosEnTabla entorno_ejemplo (bd_simple desborda) ''compras''
             ?cols ?datos ?s) = length ?datos"
    using contabilidad_por_lote [where qr = "bd_simple desborda" and datos = ?datos
        and en = entorno_ejemplo and t = "''compras''" and cols = ?cols and s = ?s] h ne
    by (elim conjE) simp
  have b: "confirmadas (estado (insertarDatosEnTabla entorno_ejemplo (bd_simple desborda)
             ''compras'' ?cols ?datos ?s)) = [InsertInto ''compras'' [''cantidad''] [JNum (Fin 5)]]"
    by code_simp
  have c: "lanzada (insertarDatosEnTabla entorno_ejemplo bd_caida ''compras'' ?cols ?uno ?s)
      = Some (InternalServerErrorException NingunRegistroInsertado)"
    by code_simp
  have d: "\<not> list_ex es_completada
       (bitacora (insertarDatosEnTabla entorno_ejemplo bd_caida ''compras'' ?cols ?uno ?s))"
    using contabilidad_por_lote [where qr = bd_caida and datos = ?uno
        and en = entorno_ejemplo and t = "''compras''" and cols = ?cols and s = ?s] c
    by (elim conjE) simp
  from a b c d show ?thesis
    by simp
qed

text \<open>
  C1, the loader at three inputs for a table with the one column \<open>cantidad\<close> of type
  \<open>int\<close>, on a database that refuses a number of more than twenty digits. A single
  record that the database refuses, and a single record without a value, each leave the
  table empty, yet the batch is committed, the counter is 1, no shortfall is logged and
  nothing is raised. A valid record next to a refused one gives one row and a counter
  of 2, again with no shortfall logged.
\<close>

theorem carga_cuenta_rechazados:
  "insertarDatosEnTabla entorno_ejemplo (bd_simple desborda) ''compras''
       [\<lparr>nombre = ''cantidad'', tipo = ''int'', esNullable = True\<rparr>]
       [[(''cantidad'', JNum (Fin (10 ^ 30)))]]
       \<lparr>confirmadas = [], abiertas = []\<rparr>
     = \<lparr>estado = \<lparr>confirmadas = [], abiertas = []\<rparr>, totalRecords = 1,
        bitacora = [LoteProcesado 0 1, TransaccionCompletada 1 1], lanzada = None\<rparr>
   \<and> insertarDatosEnTabla entorno_ejemplo (bd_simple desborda) ''compras''
       [\<lparr>nombre = ''cantidad'', tipo = ''int'', esNullable = True\<rparr>]
       [[(''cantidad'', JNull)]]
       \<lparr>confirmadas = [], abiertas = []\<rparr>
     = \<lparr>estado = \<lparr>confirmadas = [], abiertas = []\<rparr>, totalRecords = 1,
        bitacora = [LoteProcesado 0 0, TransaccionCompletada 1 1], lanzada = None\<rparr>
   \<and> insertarDatosEnTabla entorno_ejemplo (bd_simple desborda) ''compras''
       [\<lparr>nombre = ''cantidad'', tipo = ''int'', esNullable = True\<rparr>]
       [[(''cantidad'', JNum (Fin 5))], [(''cantidad'', JNum (Fin (10 ^ 30)))]]
       \<lparr>confirmadas = [], abiertas = []\<rparr>
     = \<lparr>estado = \<lparr>confirmadas = [InsertInto ''compras'' [''cantidad''] [JNum (Fin 5)]],
                    abiertas = []\<rparr>,
        totalRecords = 2,
        bitacora = [LoteProcesado 1 1, TransaccionCompletada 2 2], lanzada = None\<rparr>"
  by code_simp


section \<open>Properties of the paginated read\<close>

lemma existe_columna:
  "list_ex (\<lambda>col. nombre col = campo) cols = (campo \<in> nombre ` set cols)"
  by (auto simp: list_ex_iff)

lemma filtrar_campos_eq:
  "filtrar_campos cols filtros (condiciones, parametros, paramIndex) =
     (condiciones @ map (\<lambda>(i, (campo, valor)). condicion campo i)
                        (enumerate paramIndex (filtros_validos cols filtros)),
      parametros @ map snd (filtros_validos cols filtros),
      paramIndex + length (filtros_validos cols filtros))"
proof (induction filtros arbitrary: condiciones parametros paramIndex)
  case Nil
  show ?case by (simp add: filtros_validos_def)
next
  case (Cons p filtros)
  obtain campo valor where p: "p = (campo, valor)" by (cases p)
  show ?case
  proof (cases "campo \<in> nombre ` set cols")
    case True
    then have "filtros_validos cols (p # filtros) = (campo, valor) # filtros_validos cols filtros"
      by (simp add: filtros_validos_def p)
    with True show ?thesis
      by (simp add: p existe_columna Cons)
  next
    case False
    then have "filtros_validos cols (p # filtros) = filtros_validos cols filtros"
      by (simp add: filtros_validos_def p)
    with False show ?thesis
      by (simp add: p existe_columna Cons)
  qed
qed

lemma enumerate_vacio: "(enumerate n xs = []) = (xs = [])"
  by (cases xs) simp_all

lemma construir_where_eq:
  "construir_where cols filtros =
     (if filtros_validos cols filtros = [] then []
      else '' WHERE '' @ join '' AND '' (condiciones_de (filtros_validos cols filtros)),
      map snd (filtros_validos cols filtros))"
proof (cases "filtros = []")
  case True
  then show ?thesis
    by (simp add: construir_where_def Object_keys_def filtros_validos_def)
next
  case False
  then show ?thesis
    by (simp add: construir_where_def Object_keys_def filtrar_campos_eq condiciones_de_def
        enumerate_vacio)
qed

lemma filtros_validos_idem:
  "filtros_validos cols (filtros_validos cols filtros) = filtros_validos cols filtros"
  by (simp add: filtros_validos_def)

text \<open>
  C6. For every filter, the \<open>WHERE\<close> clause and the bound parameters of the count
  query and of the page query are built from the entries whose key names a current
  column, in their order and numbered from one, and from nothing else: a key that names
  no column adds no condition and no parameter, and the read with it is the read without
  it, so it raises no error of its own. Without a valid key there is no \<open>WHERE\<close>
  clause.
\<close>

theorem filtros_seguros:
  "construir_where cols filtros =
     (if filtros_validos cols filtros = [] then []
      else '' WHERE '' @ join '' AND '' (condiciones_de (filtros_validos cols filtros)),
      map snd (filtros_validos cols filtros))
   \<and> (\<forall>(campo, valor) \<in> set (filtros_validos cols filtros). campo \<in> nombre ` set cols)
   \<and> construir_where cols filtros = construir_where cols (filtros_validos cols filtros)
   \<and> (estructura bd t = Inr cols \<longrightarrow>
        obtenerDatosTabla en bd t pagina limite filtros op
          = obtenerDatosTabla en bd t pagina limite (filtros_validos cols filtros) op)"
proof -
  have a: "construir_where cols filtros = construir_where cols (filtros_validos cols filtros)"
    by (simp only: construir_where_eq filtros_validos_idem)
  have b: "\<forall>(campo, valor) \<in> set (filtros_validos cols filtros). campo \<in> nombre ` set cols"
    by (auto simp: filtros_validos_def)
  have c: "obtenerDatosTabla en bd t pagina limite filtros op
          = obtenerDatosTabla en bd t pagina limite (filtros_validos cols filtros) op"
    if "estructura bd t = Inr cols"
    unfolding obtenerDatosTabla_def that using a by (simp split: sum.splits)
  from a b c construir_where_eq [of cols filtros] show ?thesis
    by (intro conjI impI)
qed

text \<open>
  C8. On an existing table, for a page from 1 and a positive limit, the read returns the
  rows \<open>take limit (drop ((page - 1) * limit))\<close> of the rows the filter selects (cleaned
  for display when that is asked for), at most \<open>limit\<close> of them, with the number of
  selected rows as total and its quotient by the limit, rounded up, as number of pages.
  So page 2 with limit 10 of 25 rows has 10 rows, of 3 pages.
\<close>

theorem paginacion:
  assumes "tabla_existe bd t = Inr True"
    and "estructura bd t = Inr cols"
    and "filas bd t (fst (construir_where cols filtros)) (snd (construir_where cols filtros))
           = Inr seleccionadas"
    and "1 \<le> pagina" and "0 < limite"
  shows "\<exists>r. obtenerDatosTabla en bd t pagina limite filtros op = Inr r
     \<and> td_datos r =
         (if aplicarLimpieza op
          then limpiarDatosTabla en
                 (take (nat limite) (drop (nat ((pagina - 1) * limite)) seleccionadas))
                 (columnasOcultas op) (columnasLimpiar op)
          else take (nat limite) (drop (nat ((pagina - 1) * limite)) seleccionadas))
     \<and> length (td_datos r) \<le> nat limite
     \<and> td_totalRegistros r = length seleccionadas
     \<and> td_totalPages r = Fin (of_int \<lceil>(of_nat (length seleccionadas) :: rat) / of_int limite\<rceil>)"
proof -
  obtain w ps where w: "construir_where cols filtros = (w, ps)"
    by (cases "construir_where cols filtros")
  from assms(4,5) have o: "0 \<le> (pagina - 1) * limite"
    by simp
  have l: "length (limpiarDatosTabla en xs oc li) = length xs" for xs oc li
    by (simp add: limpiarDatosTabla_def)
  from assms(3) have f: "filas bd t w ps = Inr seleccionadas"
    by (simp add: w)
  from assms(5) o show ?thesis
    by (simp add: obtenerDatosTabla_def assms(1,2) w f limit_offset_def dividir_def Let_def l)
qed


theorem paginacion_witness:
  "\<exists>r. obtenerDatosTabla entorno_ejemplo bd_ejemplo ''compras'' 2 10 [] 
          \<lparr>columnasOcultas = [], columnasLimpiar = [], aplicarLimpieza = False\<rparr> = Inr r
     \<and> td_datos r = map (\<lambda>i. [(''id'', JNum (Fin (of_nat i)))]) [11 ..< 21]
     \<and> length (td_datos r) = 10
     \<and> td_totalRegistros r = 25
     \<and> td_totalPages r = Fin 3"
proof -
  let ?op = "\<lparr>columnasOcultas = [], columnasLimpiar = [], aplicarLimpieza = False\<rparr>"
  let ?cols = "[\<lparr>nombre = ''id'', tipo = ''integer'', esNullable = False\<rparr>,
                \<lparr>nombre = ''estado'', tipo = ''text'', esNullable = True\<rparr>]"
  let ?sel = "map (\<lambda>i. [(''id'', JNum (Fin (of_nat i)))]) [1 ..< 26]"
  have a: "tabla_existe bd_ejemplo ''compras'' = Inr True"
    by (simp add: bd_ejemplo_def)
  have b: "estructura bd_ejemplo ''compras'' = Inr ?cols"
    by (simp add: bd_ejemplo_def)
  have c: "filas bd_ejemplo ''compras'' (fst (construir_where ?cols []))
             (snd (construir_where ?cols [])) = Inr ?sel"
    by (simp add: bd_ejemplo_def construir_where_def Object_keys_def)
  have d: "take (nat 10) (drop (nat ((2 - 1) * 10)) ?sel)
             = map (\<lambda>i. [(''id'', JNum (Fin (of_nat i)))]) [11 ..< 21]"
    by code_simp
  have e: "\<lceil>(of_nat (length ?sel) :: rat) / of_int 10\<rceil> = 3"
    by code_simp
  have f: "1 \<le> (2::int)" and g: "0 < (10::int)"
    by simp_all
  from paginacion [OF a b c f g, of entorno_ejemplo ?op]
  obtain r where r1: "obtenerDatosTabla entorno_ejemplo bd_ejemplo ''compras'' 2 10 [] ?op = Inr r"
    and r2: "td_datos r =
         (if aplicarLimpieza ?op
          then limpiarDatosTabla entorno_ejemplo
                 (take (nat 10) (drop (nat ((2 - 1) * 10)) ?sel))
                 (columnasOcultas ?op) (columnasLimpiar ?op)
          else take (nat 10) (drop (nat ((2 - 1) * 10)) ?sel))"
    and r4: "td_totalRegistros r = length ?sel"
    and r5: "td_totalPages r = Fin (of_int \<lceil>(of_nat (length ?sel) :: rat) / of_int 10\<rceil>)"
    by blast
  from r2 have d': "td_datos r = map (\<lambda>i. [(''id'', JNum (Fin (of_nat i)))]) [11 ..< 21]"
    by (simp only: d) simp
  from r5 have e': "td_totalPages r = Fin 3"
    by (simp only: e) simp
  from r4 have "td_totalRegistros r = 25"
    by simp
  with r1 d' e' show ?thesis
    by simp
qed

theorem filtros_seguros_witness:
  \<open>construir_where
      [\<lparr>nombre = ''id'', tipo = ''integer'', esNullable = False\<rparr>,
       \<lparr>nombre = ''estado'', tipo = ''text'', esNullable = True\<rparr>,
       \<lparr>nombre = ''proveedor'', tipo = ''text'', esNullable = True\<rparr>]
      [(''estado'', JStr ''abierto''), (''color'', JStr ''rojo''), (''proveedor'', JStr ''acme'')]
     = ('' WHERE "estado" = $1 AND "proveedor" = $2'', [JStr ''abierto'', JStr ''acme''])
   \<and> obtenerDatosTabla entorno_ejemplo bd_ejemplo ''compras'' 2 10 [(''color'', JStr ''rojo'')]
        \<lparr>columnasOcultas = [], columnasLimpiar = [], aplicarLimpieza = False\<rparr>
     = obtenerDatosTabla entorno_ejemplo bd_ejemplo ''compras'' 2 10 []
        \<lparr>columnasOcultas = [], columnasLimpiar = [], aplicarLimpieza = False\<rparr>\<close>
proof -
  let ?cols = "[\<lparr>nombre = ''id'', tipo = ''integer'', esNullable = False\<rparr>,
       \<lparr>nombre = ''estado'', tipo = ''text'', esNullable = True\<rparr>,
       \<lparr>nombre = ''proveedor'', tipo = ''text'', esNullable = True\<rparr>]"
  let ?f = "[(''estado'', JStr ''abierto''), (''color'', JStr ''rojo''), (''proveedor'', JStr ''acme'')]"
  let ?cols2 = "[\<lparr>nombre = ''id'', tipo = ''integer'', esNullable = False\<rparr>,
       \<lparr>nombre = ''estado'', tipo = ''text'', esNullable = True\<rparr>]"
  let ?op = "\<lparr>columnasOcultas = [], columnasLimpiar = [], aplicarLimpieza = False\<rparr>"
  have a: \<open>(if filtros_validos ?cols ?f = [] then []
            else '' WHERE '' @ join '' AND '' (condiciones_de (filtros_validos ?cols ?f)),
            map snd (filtros_validos ?cols ?f))
          = ('' WHERE "estado" = $1 AND "proveedor" = $2'', [JStr ''abierto'', JStr ''acme''])\<close>
    by code_simp
  have b: "estructura bd_ejemplo ''compras'' = Inr ?cols2"
    by (simp add: bd_ejemplo_def)
  have c: "filtros_validos ?cols2 [(''color'', JStr ''rojo'')] = []"
    by code_simp
  from filtros_seguros [of ?cols ?f bd_ejemplo "''compras''" entorno_ejemplo 2 10 ?op]
  have d: "construir_where ?cols ?f = (if filtros_validos ?cols ?f = [] then []
            else '' WHERE '' @ join '' AND '' (condiciones_de (filtros_validos ?cols ?f)),
            map snd (filtros_validos ?cols ?f))"
    by (rule conjunct1)
  from filtros_seguros [of ?cols2 "[(''color'', JStr ''rojo'')]" bd_ejemplo "''compras''"
      entorno_ejemplo 2 10 ?op] b
  have e: "obtenerDatosTabla entorno_ejemplo bd_ejemplo ''compras'' 2 10 [(''color'', JStr ''rojo'')] ?op
      = obtenerDatosTabla entorno_ejemplo bd_ejemplo ''compras'' 2 10
          (filtros_validos ?cols2 [(''color'', JStr ''rojo'')]) ?op"
    by blast
  from d a e c show ?thesis
    by (simp only:) 
qed

section \<open>Properties of the row mutations\<close>

lemma sin_id_asignar:
  "''id'' \<notin> set (map fst df) \<Longrightarrow> k \<noteq> ''id'' \<Longrightarrow> ''id'' \<notin> set (map fst (asignar k v df))"
  by (auto simp: asignar_def dom_update)

lemma fold_sin_id:
  assumes "\<And>p df. ''id'' \<notin> set (map fst df) \<Longrightarrow> ''id'' \<notin> set (map fst (paso p df))"
    and "''id'' \<notin> set (map fst acc)"
  shows "''id'' \<notin> set (map fst (fold paso cuerpo acc))"
  using assms(2)
proof (induction cuerpo arbitrary: acc)
  case Nil
  then show ?case by simp
next
  case (Cons p cuerpo)
  from Cons.prems have "''id'' \<notin> set (map fst (paso p acc))"
    by (rule assms(1))
  then have "''id'' \<notin> set (map fst (fold paso cuerpo (paso p acc)))"
    by (rule Cons.IH)
  then show ?case by simp
qed

lemma sin_id_actualizar:
  "''id'' \<notin> set (map fst (datosFiltrados_actualizar en est cuerpo))"
  unfolding datosFiltrados_actualizar_def Let_def
  by (rule fold_sin_id) (auto simp: sin_id_asignar split: option.splits if_splits simp del: set_map)

lemma sin_id_agregar:
  "''id'' \<notin> set (map fst (datosFiltrados_agregar en est cuerpo))"
  unfolding datosFiltrados_agregar_def Let_def
  by (rule fold_sin_id) (auto simp: sin_id_asignar split: if_splits simp del: set_map)

lemma obtener_update: "k' \<noteq> k \<Longrightarrow> obtener (AList.update k v r) k' = obtener r k'"
  by (simp add: obtener_def update_conv')

lemma obtener_asignar_todos:
  "k \<notin> set campos \<Longrightarrow> obtener (asignar_todos campos valores fila) k = obtener fila k"
proof -
  have "k \<notin> fst ` set ps \<Longrightarrow>
        obtener (fold (\<lambda>(c, v) f. AList.update c v f) ps fila) k = obtener fila k"
    for ps
  proof (induction ps arbitrary: fila)
    case Nil
    show ?case by simp
  next
    case (Cons p ps)
    obtain c v where p: "p = (c, v)" by (cases p)
    from Cons.prems have "k \<noteq> c" and "k \<notin> fst ` set ps"
      by (auto simp: p)
    then show ?case
      by (simp add: p Cons.IH obtener_update)
  qed
  moreover assume "k \<notin> set campos"
  then have "k \<notin> fst ` set (zip campos valores)"
    by (auto dest: set_zip_leftD)
  ultimately show ?thesis
    by (simp add: asignar_todos_def)
qed

text \<open>
  C9. Whatever the body of the request holds, a field \<open>id\<close> included, the \<open>UPDATE\<close>
  that \<open>actualizarRegistro\<close> builds and the \<open>INSERT\<close> that \<open>agregarRegistro\<close> builds
  never name the column \<open>id\<close>. Hence an update leaves the \<open>id\<close> of every row as it
  was, and the \<open>id\<close> of an inserted row is the next value of the sequence.
\<close>

theorem id_nunca_escrito:
  "(\<forall>q. actualizar_consulta en est t i cuerpo = Inr q \<longrightarrow>
        (\<exists>campos valores. q = UpdateSet t campos valores i \<and> ''id'' \<notin> set campos))
   \<and> (\<forall>q. agregar_consulta en est t cuerpo = Inr q \<longrightarrow>
        (\<exists>campos valores. q = InsertReturning t campos valores \<and> ''id'' \<notin> set campos))
   \<and> map (\<lambda>fila. obtener fila ''id'') (a_filas (snd (actualizarRegistro en alm t i cuerpo)))
       = map (\<lambda>fila. obtener fila ''id'') (a_filas alm)
   \<and> (\<forall>v alm'. agregarRegistro en alm t cuerpo = (Inr v, alm') \<longrightarrow>
        v = JNum (Fin (of_int (a_serial alm + 1)))
        \<and> (\<exists>fila. a_filas alm' = a_filas alm @ [fila] \<and> obtener fila ''id'' = v))"
proof -
  have a: "\<exists>campos valores. q = UpdateSet t campos valores i \<and> ''id'' \<notin> set campos"
    if "actualizar_consulta en est t i cuerpo = Inr q" for q est
    using that sin_id_actualizar [of en est cuerpo]
    by (auto simp: actualizar_consulta_def Let_def split: if_splits)
  have b: "\<exists>campos valores. q = InsertReturning t campos valores \<and> ''id'' \<notin> set campos"
    if "agregar_consulta en est t cuerpo = Inr q" for q est
    using that sin_id_agregar [of en est cuerpo]
    by (auto simp: agregar_consulta_def Object_keys_def Let_def split: if_splits)
  have c: "map (\<lambda>fila. obtener fila ''id'') (a_filas (snd (actualizarRegistro en alm t i cuerpo)))
       = map (\<lambda>fila. obtener fila ''id'') (a_filas alm)"
  proof (cases "actualizar_consulta en (a_estructura alm) t i cuerpo")
    case (Inl e)
    then show ?thesis
      unfolding actualizarRegistro_def by (simp only: sum.case) simp
  next
    case (Inr q)
    from a [OF Inr] obtain campos valores
      where q: "q = UpdateSet t campos valores i" and n: "''id'' \<notin> set campos"
      by blast
    obtain res alm2 where e: "ejecutar q alm = (res, alm2)"
      by (cases "ejecutar q alm")
    then have "map (\<lambda>fila. obtener fila ''id'') (a_filas alm2)
            = map (\<lambda>fila. obtener fila ''id'') (a_filas alm)"
      using n by (auto simp: q obtener_asignar_todos cong: map_cong)
    then show ?thesis
      unfolding actualizarRegistro_def by (simp only: Inr sum.case e prod.case) simp
  qed
  have d: "v = JNum (Fin (of_int (a_serial alm + 1)))
        \<and> (\<exists>fila. a_filas alm' = a_filas alm @ [fila] \<and> obtener fila ''id'' = v)"
    if h: "agregarRegistro en alm t cuerpo = (Inr v, alm')" for v alm'
  proof (cases "agregar_consulta en (a_estructura alm) t cuerpo")
    case (Inl e)
    with h show ?thesis
      unfolding agregarRegistro_def by (simp only: sum.case split: if_splits) simp_all
  next
    case (Inr q)
    from b [OF Inr] obtain campos valores
      where q: "q = InsertReturning t campos valores" and n: "''id'' \<notin> set campos"
      by blast
    let ?fila = "asignar_todos campos valores [(''id'', JNum (Fin (of_int (a_serial alm + 1))))]"
    have f: "obtener ?fila ''id'' = JNum (Fin (of_int (a_serial alm + 1)))"
      by (simp only: obtener_asignar_todos [OF n]) (simp add: obtener_def)
    have e: "ejecutar q alm = ([JObj [(''id'', JNum (Fin (of_int (a_serial alm + 1))))]],
               alm\<lparr>a_filas := a_filas alm @ [?fila], a_serial := a_serial alm + 1\<rparr>)"
      by (simp only: q ejecutar.simps Let_def f)
    from h have "v = JNum (Fin (of_int (a_serial alm + 1)))
        \<and> alm' = alm\<lparr>a_filas := a_filas alm @ [?fila], a_serial := a_serial alm + 1\<rparr>"
      unfolding agregarRegistro_def
      by (simp only: Inr sum.case e prod.case split: if_splits) (auto simp: obtener_def)
    with f show ?thesis by simp
  qed
  from a b c d show ?thesis by blast
qed


theorem id_nunca_escrito_witness:
  "map (\<lambda>fila. obtener fila ''id'')
     (a_filas (snd (actualizarRegistro entorno_ejemplo
        \<lparr>a_tabla = ''compras'',
         a_estructura = [\<lparr>nombre = ''id'', tipo = ''integer'', esNullable = False\<rparr>,
                         \<lparr>nombre = ''estado'', tipo = ''text'', esNullable = True\<rparr>],
         a_filas = [[(''id'', JNum (Fin 1)), (''estado'', JStr ''abierto'')],
                    [(''id'', JNum (Fin 2)), (''estado'', JStr ''abierto'')]],
         a_serial = 2\<rparr>
        ''compras'' 1 [(''id'', JNum (Fin 99)), (''estado'', JStr ''cerrado'')])))
     = [JNum (Fin 1), JNum (Fin 2)]
   \<and> a_filas (snd (actualizarRegistro entorno_ejemplo
        \<lparr>a_tabla = ''compras'',
         a_estructura = [\<lparr>nombre = ''id'', tipo = ''integer'', esNullable = False\<rparr>,
                         \<lparr>nombre = ''estado'', tipo = ''text'', esNullable = True\<rparr>],
         a_filas = [[(''id'', JNum (Fin 1)), (''estado'', JStr ''abierto'')],
                    [(''id'', JNum (Fin 2)), (''estado'', JStr ''abierto'')]],
         a_serial = 2\<rparr>
        ''compras'' 1 [(''id'', JNum (Fin 99)), (''estado'', JStr ''cerrado'')]))
     = [[(''id'', JNum (Fin 1)), (''estado'', JStr ''cerrado'')],
        [(''id'', JNum (Fin 2)), (''estado'', JStr ''abierto'')]]
   \<and> fst (agregarRegistro entorno_ejemplo
        \<lparr>a_tabla = ''compras'',
         a_estructura = [\<lparr>nombre = ''id'', tipo = ''integer'', esNullable = False\<rparr>,
                         \<lparr>nombre = ''estado'', tipo = ''text'', esNullable = True\<rparr>],
         a_filas = [[(''id'', JNum (Fin 1)), (''estado'', JStr ''abierto'')],
                    [(''id'', JNum (Fin 2)), (''estado'', JStr ''abierto'')]],
         a_serial = 2\<rparr>
        ''compras'' [(''id'', JNum (Fin 99)), (''estado'', JStr ''nuevo'')])
     = Inr (JNum (Fin 3))"
proof -
  let ?alm = "\<lparr>a_tabla = ''compras'',
         a_estructura = [\<lparr>nombre = ''id'', tipo = ''integer'', esNullable = False\<rparr>,
                         \<lparr>nombre = ''estado'', tipo = ''text'', esNullable = True\<rparr>],
         a_filas = [[(''id'', JNum (Fin 1)), (''estado'', JStr ''abierto'')],
                    [(''id'', JNum (Fin 2)), (''estado'', JStr ''abierto'')]],
         a_serial = 2\<rparr>"
  let ?cuerpo = "[(''id'', JNum (Fin 99)), (''estado'', JStr ''cerrado'')]"
  let ?nuevo = "[(''id'', JNum (Fin 99)), (''estado'', JStr ''nuevo'')]"
  note t = id_nunca_escrito [of entorno_ejemplo "a_estructura ?alm" "''compras''" 1 ?cuerpo ?alm]
  from t have "map (\<lambda>fila. obtener fila ''id'')
        (a_filas (snd (actualizarRegistro entorno_ejemplo ?alm ''compras'' 1 ?cuerpo)))
      = map (\<lambda>fila. obtener fila ''id'') (a_filas ?alm)"
    by blast
  also have "\<dots> = [JNum (Fin 1), JNum (Fin 2)]"
    by code_simp
  finally have a: "map (\<lambda>fila. obtener fila ''id'')
        (a_filas (snd (actualizarRegistro entorno_ejemplo ?alm ''compras'' 1 ?cuerpo)))
      = [JNum (Fin 1), JNum (Fin 2)]" .
  have b: "a_filas (snd (actualizarRegistro entorno_ejemplo ?alm ''compras'' 1 ?cuerpo))
     = [[(''id'', JNum (Fin 1)), (''estado'', JStr ''cerrado'')],
        [(''id'', JNum (Fin 2)), (''estado'', JStr ''abierto'')]]"
    by code_simp
  have c: "fst (agregarRegistro entorno_ejemplo ?alm ''compras'' ?nuevo) = Inr (JNum (Fin 3))"
    by code_simp
  from a b c show ?thesis
    by (intro conjI)
qed

end
